theory Spec2Isabelle
  imports Main
begin

section \<open>JavaScript values\<close>

text \<open>
  Payloads are parsed JSON. A JavaScript value is a \<open>json option\<close>: \<open>None\<close> is
  \<^verbatim>\<open>undefined\<close>, \<open>Some JNull\<close> is \<^verbatim>\<open>null\<close>. An object is the list of
  its own properties (keys distinct, as \<^verbatim>\<open>JSON.parse\<close> leaves them). A number is kept
  as what this program observes of it: whether it is non-zero, and the text \<^verbatim>\<open>String\<close>
  gives for it (so \<open>JNum True ''1005.5''\<close> is a price). Arithmetic on numbers and their
  formatting happen only in the card builders, which are parameters of the page (see
  \<open>env\<close>).
\<close>

datatype json =
    JNull
  | JBool bool
  | JNum bool string
  | JStr string
  | JArr "json list"
  | JObj "(string \<times> json) list"

type_synonym jsval = "json option"

text \<open>Truthiness, as \<^verbatim>\<open>if (v)\<close>, \<^verbatim>\<open>v || d\<close> and \<^verbatim>\<open>v ? a : b\<close> test it.\<close>

fun truthy :: "jsval \<Rightarrow> bool" where
  "truthy None = False"
| "truthy (Some JNull) = False"
| "truthy (Some (JBool b)) = b"
| "truthy (Some (JNum nonzero text)) = nonzero"
| "truthy (Some (JStr s)) = (s \<noteq> [])"
| "truthy (Some (JArr xs)) = True"
| "truthy (Some (JObj kvs)) = True"

text \<open>
  An error object: \<^verbatim>\<open>name\<close> and \<^verbatim>\<open>message\<close>, and the three properties
  \<^verbatim>\<open>handleResponse\<close> attaches (\<^verbatim>\<open>undefined\<close> on every other error).
\<close>

record js_error =
  err_name :: string
  err_message :: string
  err_status :: "nat option"
  err_code :: jsval
  err_data :: jsval

definition TypeError :: "string \<Rightarrow> js_error" where
  "TypeError m = \<lparr>err_name = ''TypeError'', err_message = m,
     err_status = None, err_code = None, err_data = None\<rparr>"

text \<open>\<^verbatim>\<open>v?.k\<close>: \<^verbatim>\<open>undefined\<close> on \<^verbatim>\<open>null\<close> and \<^verbatim>\<open>undefined\<close>; a primitive or
  an array has none of the keys read in this program.\<close>

fun opt_member :: "jsval \<Rightarrow> string \<Rightarrow> jsval" where
  "opt_member (Some (JObj kvs)) k = map_of kvs k"
| "opt_member v k = None"

text \<open>\<^verbatim>\<open>v.k\<close>: a TypeError on \<^verbatim>\<open>null\<close> and \<^verbatim>\<open>undefined\<close>. The messages are
  the engine's; \<open>CHR 0x27\<close> is the single quote around the key.\<close>

definition cannot_read :: "string \<Rightarrow> string \<Rightarrow> js_error" where
  "cannot_read what k =
     TypeError (''Cannot read properties of '' @ what @ '' (reading '' @ [CHR 0x27] @ k @ [CHR 0x27] @ '')'')"

fun member :: "jsval \<Rightarrow> string \<Rightarrow> js_error + jsval" where
  "member None k = Inl (cannot_read ''undefined'' k)"
| "member (Some JNull) k = Inl (cannot_read ''null'' k)"
| "member v k = Inr (opt_member v k)"

text \<open>A status code in decimal, as the template literal \<^verbatim>\<open>`HTTP ${response.status}`\<close>
  prints it.\<close>

fun decimal :: "nat \<Rightarrow> string" where
  "decimal n = (if 10 \<le> n then decimal (n div 10) else []) @ [''0123456789'' ! (n mod 10)]"

declare decimal.simps [simp del]

fun join_comma :: "string list \<Rightarrow> string" where
  "join_comma [] = []"
| "join_comma [s] = s"
| "join_comma (s # t # ss) = s @ '','' @ join_comma (t # ss)"

text \<open>The results of a list of conversions, up to the first one that throws.\<close>

fun collect :: "('e + 'a) list \<Rightarrow> 'e + 'a list" where
  "collect [] = Inr []"
| "collect (Inl e # rs) = Inl e"
| "collect (Inr x # rs) = (case collect rs of Inl e \<Rightarrow> Inl e | Inr xs \<Rightarrow> Inr (x # xs))"

text \<open>
  \<^verbatim>\<open>String(v)\<close>, the conversion that a template literal, \<^verbatim>\<open>new Error(v)\<close> and the
  assignment to \<^verbatim>\<open>textContent\<close> apply. An array joins its elements with commas
  (\<^verbatim>\<open>null\<close> as the empty string). An object prints as \<^verbatim>\<open>[object Object]\<close> through
  the inherited \<^verbatim>\<open>toString\<close>; an own property of that name, which parsed JSON cannot
  make callable, shadows the method, and the conversion throws a TypeError.
\<close>

fun js_to_string :: "json \<Rightarrow> js_error + string" where
  "js_to_string JNull = Inr ''null''"
| "js_to_string (JBool b) = Inr (if b then ''true'' else ''false'')"
| "js_to_string (JNum nonzero text) = Inr text"
| "js_to_string (JStr s) = Inr s"
| "js_to_string (JArr xs) =
     (case collect (map (\<lambda>x. if x = JNull then Inr [] else js_to_string x) xs) of
        Inl e \<Rightarrow> Inl e
      | Inr ss \<Rightarrow> Inr (join_comma ss))"
| "js_to_string (JObj kvs) =
     (case map_of kvs ''toString'' of
        None \<Rightarrow> Inr ''[object Object]''
      | Some t \<Rightarrow> Inl (TypeError ''Cannot convert object to primitive value''))"

section \<open>The page and the network\<close>

record response =
  ok :: bool
  status :: nat
  body :: "json option"  \<comment> \<open>\<open>None\<close>: \<^verbatim>\<open>response.json()\<close> rejects (the body is not JSON)\<close>

record request =
  req_url :: string
  req_method :: string
  req_headers :: "(string \<times> string) list"
  req_credentials :: string
  req_body :: jsval  \<comment> \<open>the value \<^verbatim>\<open>JSON.stringify\<close> serialises; \<open>None\<close>: no body\<close>

text \<open>What a written DOM property holds.\<close>

datatype content =
    Str string
  | Cards "string list"  \<comment> \<open>the card fragments, joined into \<^verbatim>\<open>innerHTML\<close>\<close>
  | ErrorAlert string  \<comment> \<open>the \<^verbatim>\<open>alert alert-danger\<close> banner around a message\<close>
  | MarketLabel bool  \<comment> \<open>the "market is open" / "market is closed" text\<close>

datatype timer_callback = UpdateClock | Refresh

datatype event =
    Fetched request
  | Slept int  \<comment> \<open>an awaited \<^verbatim>\<open>setTimeout\<close> of so many milliseconds\<close>
  | ConsoleLog string
  | ConsoleError string js_error
  | DomSet string string content  \<comment> \<open>selector, property, value\<close>
  | SetInterval nat timer_callback int
  | ClearInterval nat
  | AddListener string string  \<comment> \<open>target, event type\<close>

text \<open>
  The page the script is loaded in, fixed during a run: the origin, the cookie string,
  the \<^verbatim>\<open>csrf-token\<close> meta tag (\<open>None\<close>: no such element; its \<^verbatim>\<open>content\<close> is the
  empty string when the attribute is missing), which elements exist, the formatted local
  time, and the platform's and the page's functions the model does not look into:
  the network (the outcome of the \<open>n\<close>-th \<^verbatim>\<open>fetch\<close> of the run, rejected or
  resolved), \<^verbatim>\<open>URLSearchParams\<close>, and the two card builders
  (\<^verbatim>\<open>toFixed\<close> and \<^verbatim>\<open>toLocaleString\<close> on floating-point prices).
\<close>

record env =
  BASE_URL :: string
  cookie :: string
  meta_csrf :: "string option"
  fetch :: "nat \<Rightarrow> request \<Rightarrow> js_error + response"
  URLSearchParams :: "json \<Rightarrow> js_error + string"
  element :: "string \<Rightarrow> bool"
  timeString :: string
  createGoldPriceCard :: "json \<Rightarrow> js_error + string"
  createCurrencyRateCard :: "json \<Rightarrow> js_error + string"

text \<open>What a run changes: the requests sent so far, the trace of effects, the timers.\<close>

record world =
  nfetch :: nat
  events :: "event list"
  next_timer :: nat

definition emit :: "event \<Rightarrow> world \<Rightarrow> world" where
  "emit e w = w\<lparr>events := events w @ [e]\<rparr>"

definition do_fetch :: "env \<Rightarrow> request \<Rightarrow> world \<Rightarrow> (js_error + response) \<times> world" where
  "do_fetch env req w =
     (fetch env (nfetch w) req, emit (Fetched req) (w\<lparr>nfetch := Suc (nfetch w)\<rparr>))"

section \<open>The API client (frontend/js/api.js)\<close>

definition API_PREFIX :: string where "API_PREFIX = ''/api''"
definition TIMEOUT :: int where "TIMEOUT = 30000"
definition RETRY_ATTEMPTS :: int where "RETRY_ATTEMPTS = 3"
definition RETRY_DELAY :: int where "RETRY_DELAY = 1000"

definition startsWith_slash :: "string \<Rightarrow> bool" where
  "startsWith_slash endpoint = (case endpoint of [] \<Rightarrow> False | c # cs \<Rightarrow> c = CHR ''/'')"

definition buildUrl :: "env \<Rightarrow> string \<Rightarrow> string" where
  "buildUrl env endpoint =
     (let cleanEndpoint = (if startsWith_slash endpoint then endpoint else ''/'' @ endpoint)
      in BASE_URL env @ API_PREFIX @ cleanEndpoint)"

text \<open>
  \<^verbatim>\<open>s.match(/csrf_token=([^;]+)/)\<close>: the leftmost place where the literal is followed
  by at least one character other than \<^verbatim>\<open>;\<close>; the group is the longest such run.
\<close>

fun strip_prefix :: "string \<Rightarrow> string \<Rightarrow> string option" where
  "strip_prefix [] s = Some s"
| "strip_prefix (p # ps) [] = None"
| "strip_prefix (p # ps) (c # cs) = (if p = c then strip_prefix ps cs else None)"

fun match_csrf_cookie :: "string \<Rightarrow> string option" where
  "match_csrf_cookie [] = None"
| "match_csrf_cookie (c # cs) =
     (case strip_prefix ''csrf_token='' (c # cs) of
        None \<Rightarrow> match_csrf_cookie cs
      | Some rest \<Rightarrow>
          (if takeWhile (\<lambda>x. x \<noteq> CHR '';'') rest \<noteq> []
           then Some (takeWhile (\<lambda>x. x \<noteq> CHR '';'') rest)
           else match_csrf_cookie cs))"

definition getCSRFToken :: "env \<Rightarrow> string option" where
  "getCSRFToken env =
     (case match_csrf_cookie (cookie env) of
        Some token \<Rightarrow> Some token
      | None \<Rightarrow> (case meta_csrf env of Some c \<Rightarrow> Some c | None \<Rightarrow> None))"

definition getHeaders :: "bool \<Rightarrow> env \<Rightarrow> (string \<times> string) list" where
  "getHeaders includeCSRF env =
     (let headers = [(''Content-Type'', ''application/json''), (''Accept'', ''application/json'')]
      in if includeCSRF then
           (case getCSRFToken env of
              Some csrfToken \<Rightarrow>
                (if csrfToken \<noteq> [] then headers @ [(''X-CSRF-Token'', csrfToken)] else headers)
            | None \<Rightarrow> headers)
         else headers)"

definition handleResponse :: "response \<Rightarrow> js_error + json" where
  "handleResponse response =
     (let data = (case body response of None \<Rightarrow> JNull | Some v \<Rightarrow> v) in
      if \<not> ok response then
        (case (case opt_member (Some data) ''message'' of
                 Some m \<Rightarrow> if truthy (Some m) then js_to_string m
                           else Inr (''HTTP '' @ decimal (status response))
               | None \<Rightarrow> Inr (''HTTP '' @ decimal (status response))) of
           Inl e \<Rightarrow> Inl e
         | Inr message \<Rightarrow>
             Inl \<lparr>err_name = ''Error'',
                  err_message = message,
                  err_status = Some (status response),
                  err_code =
                    (if truthy (opt_member (Some data) ''code'') then opt_member (Some data) ''code''
                     else Some (JStr ''UNKNOWN_ERROR'')),
                  err_data = Some data\<rparr>)
      else Inr data)"

text \<open>The \<^verbatim>\<open>queryParams\<close> of \<^verbatim>\<open>get\<close>; \<open>options\<close> is the second argument after its
  default \<^verbatim>\<open>{}\<close>.\<close>

definition queryParams :: "env \<Rightarrow> json \<Rightarrow> js_error + string" where
  "queryParams env options =
     (case member (Some options) ''params'' of
        Inl e \<Rightarrow> Inl e
      | Inr p \<Rightarrow>
          (case p of
             None \<Rightarrow> Inr []
           | Some v \<Rightarrow>
               (if truthy (Some v) then
                  (case URLSearchParams env v of Inl e \<Rightarrow> Inl e | Inr q \<Rightarrow> Inr (''?'' @ q))
                else Inr [])))"

definition respond :: "(js_error + response) \<times> world \<Rightarrow> (js_error + json) \<times> world" where
  "respond r = (case r of (Inl e, w) \<Rightarrow> (Inl e, w) | (Inr response, w) \<Rightarrow> (handleResponse response, w))"

definition API_get :: "env \<Rightarrow> string \<Rightarrow> jsval \<Rightarrow> world \<Rightarrow> (js_error + json) \<times> world" where
  "API_get env endpoint options w =
     (let url = buildUrl env endpoint in
      case queryParams env (case options of None \<Rightarrow> JObj [] | Some v \<Rightarrow> v) of
        Inl e \<Rightarrow> (Inl e, w)
      | Inr q \<Rightarrow>
          respond (do_fetch env
            \<lparr>req_url = url @ q, req_method = ''GET'', req_headers = getHeaders False env,
             req_credentials = ''include'', req_body = None\<rparr> w))"

definition API_post :: "env \<Rightarrow> string \<Rightarrow> jsval \<Rightarrow> 'o \<Rightarrow> world \<Rightarrow> (js_error + json) \<times> world" where
  "API_post env endpoint data options w =
     (let url = buildUrl env endpoint in
      respond (do_fetch env
        \<lparr>req_url = url, req_method = ''POST'', req_headers = getHeaders True env,
         req_credentials = ''include'', req_body = data\<rparr> w))"

definition API_put :: "env \<Rightarrow> string \<Rightarrow> jsval \<Rightarrow> 'o \<Rightarrow> world \<Rightarrow> (js_error + json) \<times> world" where
  "API_put env endpoint data options w =
     (let url = buildUrl env endpoint in
      respond (do_fetch env
        \<lparr>req_url = url, req_method = ''PUT'', req_headers = getHeaders True env,
         req_credentials = ''include'', req_body = data\<rparr> w))"

definition API_delete :: "env \<Rightarrow> string \<Rightarrow> 'o \<Rightarrow> world \<Rightarrow> (js_error + json) \<times> world" where
  "API_delete env endpoint options w =
     (let url = buildUrl env endpoint in
      respond (do_fetch env
        \<lparr>req_url = url, req_method = ''DELETE'', req_headers = getHeaders True env,
         req_credentials = ''include'', req_body = None\<rparr> w))"

text \<open>
  The options of \<^verbatim>\<open>requestWithRetry\<close>: \<^verbatim>\<open>retryAttempts\<close> (an integer when given)
  and, as a caller of \<^verbatim>\<open>get\<close> would pass them, \<^verbatim>\<open>params\<close>.
\<close>

record retry_options =
  retryAttempts :: "int option"
  params :: jsval

datatype method_name = Get | Post | Put | Delete

text \<open>
  \<^verbatim>\<open>this[method](endpoint, data, options)\<close>: \<^verbatim>\<open>get\<close> and \<^verbatim>\<open>delete\<close> declare
  two parameters, so \<open>data\<close> arrives as their \<open>options\<close> and the third argument is
  dropped; \<^verbatim>\<open>post\<close> and \<^verbatim>\<open>put\<close> declare three.
\<close>

definition call_method ::
  "env \<Rightarrow> method_name \<Rightarrow> string \<Rightarrow> json \<Rightarrow> retry_options \<Rightarrow> world \<Rightarrow> (js_error + json) \<times> world" where
  "call_method env method endpoint data options w =
     (case method of
        Get \<Rightarrow> API_get env endpoint (Some data) w
      | Post \<Rightarrow> API_post env endpoint (Some data) options w
      | Put \<Rightarrow> API_put env endpoint (Some data) options w
      | Delete \<Rightarrow> API_delete env endpoint (Some data) w)"

definition client_error :: "js_error \<Rightarrow> bool" where
  "client_error error = (case err_status error of None \<Rightarrow> False | Some s \<Rightarrow> 400 \<le> s \<and> s < 500)"

definition maxAttempts_of :: "retry_options \<Rightarrow> int" where
  "maxAttempts_of options =
     (case retryAttempts options of
        None \<Rightarrow> RETRY_ATTEMPTS
      | Some n \<Rightarrow> if n \<noteq> 0 then n else RETRY_ATTEMPTS)"

text \<open>
  The \<^verbatim>\<open>for\<close> loop of \<^verbatim>\<open>requestWithRetry\<close>, from \<open>attempt\<close> on. What is thrown is a
  \<open>js_error option\<close>: \<open>None\<close> is \<^verbatim>\<open>undefined\<close>, the value of \<^verbatim>\<open>lastError\<close>
  when the loop body never ran.
\<close>

function requestWithRetry_loop ::
  "env \<Rightarrow> method_name \<Rightarrow> string \<Rightarrow> json \<Rightarrow> retry_options \<Rightarrow> int \<Rightarrow> int \<Rightarrow> js_error option \<Rightarrow> world
    \<Rightarrow> (js_error option + json) \<times> world" where
  "requestWithRetry_loop env method endpoint data options maxAttempts attempt lastError w =
     (if attempt \<le> maxAttempts then
        (case call_method env method endpoint data options w of
           (Inr v, w1) \<Rightarrow> (Inr v, w1)
         | (Inl error, w1) \<Rightarrow>
             (if client_error error then (Inl (Some error), w1)
              else requestWithRetry_loop env method endpoint data options maxAttempts (attempt + 1)
                     (Some error)
                     (if attempt < maxAttempts then emit (Slept (RETRY_DELAY * attempt)) w1 else w1)))
      else (Inl lastError, w))"
  by pat_completeness auto
termination
  by (relation "measure (\<lambda>(env, method, endpoint, data, options, maxAttempts, attempt, lastError, w).
        nat (maxAttempts + 1 - attempt))") auto

declare requestWithRetry_loop.simps [simp del]

definition requestWithRetry ::
  "env \<Rightarrow> method_name \<Rightarrow> string \<Rightarrow> json \<Rightarrow> retry_options \<Rightarrow> world \<Rightarrow> (js_error option + json) \<times> world" where
  "requestWithRetry env method endpoint data options w =
     requestWithRetry_loop env method endpoint data options (maxAttempts_of options) 1 None w"

definition GoldAPI_getAllPrices :: "env \<Rightarrow> world \<Rightarrow> (js_error + json) \<times> world" where
  "GoldAPI_getAllPrices env w = API_get env ''/gold/prices'' None w"

definition CurrencyAPI_getAllRates :: "env \<Rightarrow> world \<Rightarrow> (js_error + json) \<times> world" where
  "CurrencyAPI_getAllRates env w = API_get env ''/currency/rates'' None w"

definition SettingsAPI_getStoreInfo :: "env \<Rightarrow> world \<Rightarrow> (js_error + json) \<times> world" where
  "SettingsAPI_getStoreInfo env w = API_get env ''/settings/store'' None w"

definition SettingsAPI_checkMarketStatus :: "env \<Rightarrow> world \<Rightarrow> (js_error + json) \<times> world" where
  "SettingsAPI_checkMarketStatus env w = API_get env ''/settings/market/status'' None w"

section \<open>The application (js/app.js)\<close>

text \<open>
  A timer handle: \<^verbatim>\<open>setInterval\<close> returns a positive integer, so a handle is
  always truthy and \<^verbatim>\<open>if (this.updateInterval)\<close> tests for \<^verbatim>\<open>null\<close> alone.
\<close>

datatype timer_handle = Handle nat

record app =
  goldPrices :: jsval
  currencyRates :: jsval
  storeInfo :: jsval
  marketStatus :: jsval
  updateInterval :: "timer_handle option"
  clockInterval :: "timer_handle option"

text \<open>The fields as the constructor sets them, before it calls \<^verbatim>\<open>init\<close>.\<close>

definition GoldMarketApp_fields :: app where
  "GoldMarketApp_fields =
     \<lparr>goldPrices = Some (JArr []), currencyRates = Some (JArr []), storeInfo = Some (JObj []),
      marketStatus = Some (JObj [(''isOpen'', JBool False)]),
      updateInterval = None, clockInterval = None\<rparr>"

definition page_load :: world where
  "page_load = \<lparr>nfetch = 0, events = [], next_timer = 1\<rparr>"

definition setInterval :: "timer_callback \<Rightarrow> int \<Rightarrow> world \<Rightarrow> timer_handle \<times> world" where
  "setInterval cb ms w =
     (Handle (next_timer w), emit (SetInterval (next_timer w) cb ms) (w\<lparr>next_timer := Suc (next_timer w)\<rparr>))"

fun clearInterval :: "timer_handle \<Rightarrow> world \<Rightarrow> world" where
  "clearInterval (Handle h) w = emit (ClearInterval h) w"

text \<open>Statements run in order; the first one that throws ends the run, its effects kept.\<close>

fun run_steps :: "(world \<Rightarrow> (js_error + unit) \<times> world) list \<Rightarrow> world \<Rightarrow> (js_error + unit) \<times> world" where
  "run_steps [] w = (Inr (), w)"
| "run_steps (s # ss) w = (case s w of (Inl e, w1) \<Rightarrow> (Inl e, w1) | (Inr u, w1) \<Rightarrow> run_steps ss w1)"

definition updateClock :: "env \<Rightarrow> world \<Rightarrow> world" where
  "updateClock env w =
     (if \<not> element env ''#clock'' then w
      else emit (DomSet ''#clock'' ''textContent'' (Str (timeString env))) w)"

definition initClock :: "env \<Rightarrow> app \<Rightarrow> world \<Rightarrow> app \<times> world" where
  "initClock env a w =
     (case setInterval UpdateClock 1000 (updateClock env w) of
        (h, w1) \<Rightarrow> (a\<lparr>clockInterval := Some h\<rparr>, w1))"

text \<open>
  \<^verbatim>\<open>if (el && this.storeInfo.k) { ... }\<close>: the property is read only when the element
  exists; the body runs on a truthy value.
\<close>

definition when_field ::
  "env \<Rightarrow> string \<Rightarrow> jsval \<Rightarrow> string \<Rightarrow> (json \<Rightarrow> world \<Rightarrow> (js_error + unit) \<times> world)
    \<Rightarrow> world \<Rightarrow> (js_error + unit) \<times> world" where
  "when_field env sel obj k act w =
     (if element env sel then
        (case member obj k of
           Inl e \<Rightarrow> (Inl e, w)
         | Inr None \<Rightarrow> (Inr (), w)
         | Inr (Some v) \<Rightarrow> (if truthy (Some v) then act v w else (Inr (), w)))
      else (Inr (), w))"

text \<open>\<^verbatim>\<open>s.replace(/\D/g, '')\<close> and \<^verbatim>\<open>s.replace('@', '')\<close> (the first occurrence).\<close>

definition strip_non_digits :: "string \<Rightarrow> string" where
  "strip_non_digits s = filter (\<lambda>c. c \<in> set ''0123456789'') s"

fun remove_first_at :: "string \<Rightarrow> string" where
  "remove_first_at [] = []"
| "remove_first_at (c # cs) = (if c = CHR ''@'' then cs else c # remove_first_at cs)"

text \<open>\<^verbatim>\<open>el.prop = `prefix${v}`\<close>: the value is converted to a string, then written.\<close>

definition set_text :: "string \<Rightarrow> string \<Rightarrow> string \<Rightarrow> json \<Rightarrow> world \<Rightarrow> (js_error + unit) \<times> world" where
  "set_text sel prop prefix v w =
     (case js_to_string v of
        Inl e \<Rightarrow> (Inl e, w)
      | Inr s \<Rightarrow> (Inr (), emit (DomSet sel prop (Str (prefix @ s))) w))"

text \<open>\<^verbatim>\<open>el.href = `prefix${v.replace(...)}`\<close>: only a string has \<^verbatim>\<open>replace\<close>.\<close>

definition set_replaced ::
  "string \<Rightarrow> string \<Rightarrow> string \<Rightarrow> (string \<Rightarrow> string) \<Rightarrow> json \<Rightarrow> world \<Rightarrow> (js_error + unit) \<times> world" where
  "set_replaced sel field prefix f v w =
     (case v of
        JStr s \<Rightarrow> (Inr (), emit (DomSet sel ''href'' (Str (prefix @ f s))) w)
      | _ \<Rightarrow> (Inl (TypeError (''this.storeInfo.'' @ field @ ''.replace is not a function'')), w))"

definition updateStoreInfo :: "env \<Rightarrow> app \<Rightarrow> world \<Rightarrow> (js_error + unit) \<times> world" where
  "updateStoreInfo env a w =
     run_steps
       [when_field env ''.logo-text'' (storeInfo a) ''name''
          (set_text ''.logo-text'' ''textContent'' []),
        when_field env ''#footer-store-name'' (storeInfo a) ''name''
          (set_text ''#footer-store-name'' ''textContent'' []),
        when_field env ''#footer-address'' (storeInfo a) ''address''
          (set_text ''#footer-address'' ''textContent'' []),
        when_field env ''#footer-phone'' (storeInfo a) ''phone''
          (\<lambda>v. run_steps [set_text ''#footer-phone'' ''textContent'' [] v,
                          set_text ''#footer-phone'' ''href'' ''tel:'' v]),
        when_field env ''#footer-whatsapp'' (storeInfo a) ''whatsapp''
          (set_replaced ''#footer-whatsapp'' ''whatsapp'' ''https://wa.me/'' strip_non_digits),
        when_field env ''#footer-instagram'' (storeInfo a) ''instagram''
          (set_replaced ''#footer-instagram'' ''instagram'' ''https://instagram.com/'' remove_first_at),
        when_field env ''#footer-facebook'' (storeInfo a) ''facebook''
          (set_text ''#footer-facebook'' ''href'' ''https://facebook.com/'')]
       w"

definition updateMarketStatus :: "env \<Rightarrow> app \<Rightarrow> world \<Rightarrow> (js_error + unit) \<times> world" where
  "updateMarketStatus env a w =
     (if element env ''.status-indicator'' \<and> element env ''.status-text'' then
        (case member (marketStatus a) ''isOpen'' of
           Inl e \<Rightarrow> (Inl e, w)
         | Inr isOpen \<Rightarrow>
             (Inr (),
              emit (DomSet ''.status-text'' ''textContent'' (MarketLabel (truthy isOpen)))
                (emit (DomSet ''.status-text'' ''className''
                         (Str (''status-text '' @ (if truthy isOpen then ''open'' else ''closed''))))
                   (emit (DomSet ''.status-indicator'' ''className''
                            (Str (''status-indicator '' @ (if truthy isOpen then ''open'' else ''closed''))))
                      w))))
      else (Inr (), w))"

text \<open>\<^verbatim>\<open>xs.map(card)\<close>: the cards in order, up to the first one that throws.\<close>

fun map_cards :: "(json \<Rightarrow> js_error + string) \<Rightarrow> json list \<Rightarrow> js_error + string list" where
  "map_cards mk [] = Inr []"
| "map_cards mk (x # xs) =
     (case mk x of
        Inl e \<Rightarrow> Inl e
      | Inr c \<Rightarrow> (case map_cards mk xs of Inl e \<Rightarrow> Inl e | Inr cs \<Rightarrow> Inr (c # cs)))"

text \<open>\<^verbatim>\<open>this.name.map(card).join('')\<close> into the container: only an array has
  \<^verbatim>\<open>map\<close>; on any other snapshot the call is a TypeError.\<close>

definition render_list ::
  "env \<Rightarrow> string \<Rightarrow> string \<Rightarrow> jsval \<Rightarrow> (json \<Rightarrow> js_error + string) \<Rightarrow> world
    \<Rightarrow> (js_error + unit) \<times> world" where
  "render_list env sel name snapshot mk w =
     (if \<not> element env sel then (Inr (), w)
      else
        (case snapshot of
           None \<Rightarrow> (Inl (cannot_read ''undefined'' ''map''), w)
         | Some JNull \<Rightarrow> (Inl (cannot_read ''null'' ''map''), w)
         | Some (JArr xs) \<Rightarrow>
             (case map_cards mk xs of
                Inl e \<Rightarrow> (Inl e, w)
              | Inr cards \<Rightarrow> (Inr (), emit (DomSet sel ''innerHTML'' (Cards cards)) w))
         | _ \<Rightarrow> (Inl (TypeError (''this.'' @ name @ ''.map is not a function'')), w)))"

definition renderGoldPrices :: "env \<Rightarrow> app \<Rightarrow> world \<Rightarrow> (js_error + unit) \<times> world" where
  "renderGoldPrices env a w =
     render_list env ''#gold-prices-grid'' ''goldPrices'' (goldPrices a) (createGoldPriceCard env) w"

definition renderCurrencyRates :: "env \<Rightarrow> app \<Rightarrow> world \<Rightarrow> (js_error + unit) \<times> world" where
  "renderCurrencyRates env a w =
     render_list env ''#currency-rates-grid'' ''currencyRates'' (currencyRates a)
       (createCurrencyRateCard env) w"

definition render :: "env \<Rightarrow> app \<Rightarrow> world \<Rightarrow> (js_error + unit) \<times> world" where
  "render env a w = run_steps [renderGoldPrices env a, renderCurrencyRates env a] w"

text \<open>
  \<^verbatim>\<open>fetchGoldPrices\<close> and \<^verbatim>\<open>fetchCurrencyRates\<close>: the whole body is inside
  \<^verbatim>\<open>try\<close>, and the \<^verbatim>\<open>catch\<close> only logs, so neither ever throws. Each is its
  request followed by what it does once \<^verbatim>\<open>await\<close> has the outcome: the
  \<open>_settle\<close> function, which takes the outcome and the world at that moment.
\<close>

definition fetchGoldPrices_settle :: "env \<Rightarrow> app \<Rightarrow> (js_error + json) \<times> world \<Rightarrow> app \<times> world" where
  "fetchGoldPrices_settle env a settled =
     (case settled of
        (Inl e, w1) \<Rightarrow> (a, emit (ConsoleError ''Error fetching gold prices:'' e) w1)
      | (Inr response, w1) \<Rightarrow>
          (case member (Some response) ''success'' of
             Inl e \<Rightarrow> (a, emit (ConsoleError ''Error fetching gold prices:'' e) w1)
           | Inr success \<Rightarrow>
               (if truthy success then
                  (case renderGoldPrices env (a\<lparr>goldPrices := opt_member (Some response) ''data''\<rparr>) w1 of
                     (Inl e, w2) \<Rightarrow>
                       (a\<lparr>goldPrices := opt_member (Some response) ''data''\<rparr>,
                        emit (ConsoleError ''Error fetching gold prices:'' e) w2)
                   | (Inr u, w2) \<Rightarrow> (a\<lparr>goldPrices := opt_member (Some response) ''data''\<rparr>, w2))
                else (a, w1))))"

definition fetchGoldPrices :: "env \<Rightarrow> app \<Rightarrow> world \<Rightarrow> app \<times> world" where
  "fetchGoldPrices env a w = fetchGoldPrices_settle env a (GoldAPI_getAllPrices env w)"

definition fetchCurrencyRates_settle :: "env \<Rightarrow> app \<Rightarrow> (js_error + json) \<times> world \<Rightarrow> app \<times> world" where
  "fetchCurrencyRates_settle env a settled =
     (case settled of
        (Inl e, w1) \<Rightarrow> (a, emit (ConsoleError ''Error fetching currency rates:'' e) w1)
      | (Inr response, w1) \<Rightarrow>
          (case member (Some response) ''success'' of
             Inl e \<Rightarrow> (a, emit (ConsoleError ''Error fetching currency rates:'' e) w1)
           | Inr success \<Rightarrow>
               (if truthy success then
                  (case renderCurrencyRates env (a\<lparr>currencyRates := opt_member (Some response) ''data''\<rparr>) w1 of
                     (Inl e, w2) \<Rightarrow>
                       (a\<lparr>currencyRates := opt_member (Some response) ''data''\<rparr>,
                        emit (ConsoleError ''Error fetching currency rates:'' e) w2)
                   | (Inr u, w2) \<Rightarrow> (a\<lparr>currencyRates := opt_member (Some response) ''data''\<rparr>, w2))
                else (a, w1))))"

definition fetchCurrencyRates :: "env \<Rightarrow> app \<Rightarrow> world \<Rightarrow> app \<times> world" where
  "fetchCurrencyRates env a w = fetchCurrencyRates_settle env a (CurrencyAPI_getAllRates env w)"

text \<open>The \<^verbatim>\<open>try\<close> block of \<^verbatim>\<open>fetchInitialData\<close>, then its \<^verbatim>\<open>catch\<close>, which logs and rethrows.\<close>

definition fetchInitialData_try :: "env \<Rightarrow> app \<Rightarrow> world \<Rightarrow> (js_error + unit) \<times> app \<times> world" where
  "fetchInitialData_try env a w =
     (case SettingsAPI_getStoreInfo env w of
        (Inl e, w1) \<Rightarrow> (Inl e, a, w1)
      | (Inr storeResponse, w1) \<Rightarrow>
     (case member (Some storeResponse) ''success'' of
        Inl e \<Rightarrow> (Inl e, a, w1)
      | Inr storeSuccess \<Rightarrow>
     (case (if truthy storeSuccess
            then (case updateStoreInfo env (a\<lparr>storeInfo := opt_member (Some storeResponse) ''data''\<rparr>) w1 of
                    (r, w2) \<Rightarrow> (r, a\<lparr>storeInfo := opt_member (Some storeResponse) ''data''\<rparr>, w2))
            else (Inr (), a, w1)) of
        (Inl e, a2, w2) \<Rightarrow> (Inl e, a2, w2)
      | (Inr u, a2, w2) \<Rightarrow>
     (case SettingsAPI_checkMarketStatus env w2 of
        (Inl e, w3) \<Rightarrow> (Inl e, a2, w3)
      | (Inr marketResponse, w3) \<Rightarrow>
     (case member (Some marketResponse) ''success'' of
        Inl e \<Rightarrow> (Inl e, a2, w3)
      | Inr marketSuccess \<Rightarrow>
     (case (if truthy marketSuccess
            then (case updateMarketStatus env (a2\<lparr>marketStatus := opt_member (Some marketResponse) ''data''\<rparr>) w3 of
                    (r, w4) \<Rightarrow> (r, a2\<lparr>marketStatus := opt_member (Some marketResponse) ''data''\<rparr>, w4))
            else (Inr (), a2, w3)) of
        (Inl e, a4, w4) \<Rightarrow> (Inl e, a4, w4)
      | (Inr u, a4, w4) \<Rightarrow>
     (case fetchGoldPrices env a4 w4 of
        (a5, w5) \<Rightarrow>
     (case fetchCurrencyRates env a5 w5 of
        (a6, w6) \<Rightarrow> (Inr (), a6, w6)))))))))"

definition fetchInitialData :: "env \<Rightarrow> app \<Rightarrow> world \<Rightarrow> (js_error + unit) \<times> app \<times> world" where
  "fetchInitialData env a w =
     (case fetchInitialData_try env a w of
        (Inl error, a1, w1) \<Rightarrow> (Inl error, a1, emit (ConsoleError ''Error fetching initial data:'' error) w1)
      | (Inr u, a1, w1) \<Rightarrow> (Inr u, a1, w1))"

definition startAutoUpdate :: "app \<Rightarrow> world \<Rightarrow> app \<times> world" where
  "startAutoUpdate a w =
     (case setInterval Refresh 30000 w of (h, w1) \<Rightarrow> (a\<lparr>updateInterval := Some h\<rparr>, w1))"

text \<open>
  The callback \<^verbatim>\<open>startAutoUpdate\<close> registers, run once. The two fetches are called
  without \<^verbatim>\<open>await\<close>: each runs up to its request and returns, so both requests go
  out, then \<^verbatim>\<open>updateMarketStatus\<close> runs, and the two fetches go on when their
  responses are in. The model takes the responses in the order of the requests (the
  network may deliver them in the other order; the two continuations touch different
  fields and different regions). What the callback itself throws is what
  \<^verbatim>\<open>updateMarketStatus\<close> throws.
\<close>

definition refresh_callback :: "env \<Rightarrow> app \<Rightarrow> world \<Rightarrow> (js_error + unit) \<times> app \<times> world" where
  "refresh_callback env a w =
     (case GoldAPI_getAllPrices env w of
        (prices, w1) \<Rightarrow>
     (case CurrencyAPI_getAllRates env w1 of
        (rates, w2) \<Rightarrow>
     (case updateMarketStatus env a w2 of
        (r, w3) \<Rightarrow>
     (case fetchGoldPrices_settle env a (prices, w3) of
        (a4, w4) \<Rightarrow>
     (case fetchCurrencyRates_settle env a4 (rates, w4) of
        (a5, w5) \<Rightarrow> (r, a5, w5))))))"

definition stopAutoUpdate :: "app \<Rightarrow> world \<Rightarrow> app \<times> world" where
  "stopAutoUpdate a w =
     (case (case updateInterval a of
              Some h \<Rightarrow> (a\<lparr>updateInterval := None\<rparr>, clearInterval h w)
            | None \<Rightarrow> (a, w)) of
        (a1, w1) \<Rightarrow>
          (case clockInterval a1 of
             Some h \<Rightarrow> (a1\<lparr>clockInterval := None\<rparr>, clearInterval h w1)
           | None \<Rightarrow> (a1, w1)))"

definition attachEventListeners :: "env \<Rightarrow> world \<Rightarrow> world" where
  "attachEventListeners env w =
     emit (AddListener ''document'' ''mouseout'')
       (emit (AddListener ''document'' ''mouseover'')
          (if element env ''#admin-btn'' then emit (AddListener ''#admin-btn'' ''click'') w else w))"

definition showError :: "env \<Rightarrow> string \<Rightarrow> world \<Rightarrow> world" where
  "showError env message w =
     (if element env ''#error-container''
      then emit (DomSet ''#error-container'' ''innerHTML'' (ErrorAlert message)) w
      else w)"

text \<open>The \<^verbatim>\<open>try\<close> block of \<^verbatim>\<open>init\<close>, then its \<^verbatim>\<open>catch\<close>.\<close>

definition init_try :: "env \<Rightarrow> app \<Rightarrow> world \<Rightarrow> (js_error + unit) \<times> app \<times> world" where
  "init_try env a w =
     (case initClock env a (emit (ConsoleLog ''Initializing Gold Market App...'') w) of
        (a1, w1) \<Rightarrow>
     (case fetchInitialData env a1 w1 of
        (Inl e, a2, w2) \<Rightarrow> (Inl e, a2, w2)
      | (Inr u, a2, w2) \<Rightarrow>
     (case render env a2 w2 of
        (Inl e, w3) \<Rightarrow> (Inl e, a2, w3)
      | (Inr u, w3) \<Rightarrow>
     (case startAutoUpdate a2 w3 of
        (a4, w4) \<Rightarrow>
          (Inr (), a4, emit (ConsoleLog ''App initialized successfully'') (attachEventListeners env w4))))))"

definition init :: "env \<Rightarrow> app \<Rightarrow> world \<Rightarrow> app \<times> world" where
  "init env a w =
     (case init_try env a w of
        (Inl error, a1, w1) \<Rightarrow>
          (a1, showError env ''Failed to initialize application''
                 (emit (ConsoleError ''App initialization error:'' error) w1))
      | (Inr u, a1, w1) \<Rightarrow> (a1, w1))"

section \<open>Auxiliary notions for the proofs\<close>

text \<open>What a verb returns when its request is the \<open>n\<close>-th of the run.\<close>

definition attempt_outcome :: "env \<Rightarrow> request \<Rightarrow> nat \<Rightarrow> js_error + json" where
  "attempt_outcome env req n = (case fetch env n req of Inl e \<Rightarrow> Inl e | Inr r \<Rightarrow> handleResponse r)"

definition sent :: "request \<Rightarrow> world \<Rightarrow> world" where
  "sent req w = emit (Fetched req) (w\<lparr>nfetch := Suc (nfetch w)\<rparr>)"

text \<open>The world after \<open>j\<close> failed attempts, the first of them numbered \<open>attempt\<close>, each
  followed by its delay.\<close>

fun retried :: "request \<Rightarrow> int \<Rightarrow> nat \<Rightarrow> world \<Rightarrow> world" where
  "retried req attempt 0 w = w"
| "retried req attempt (Suc j) w =
     retried req (attempt + 1) j (emit (Slept (RETRY_DELAY * attempt)) (sent req w))"

text \<open>The requests among some events, the events a run added, and the \<^verbatim>\<open>X-CSRF-Token\<close>
  header (or none) of each request among some events.\<close>

fun requests_of :: "event list \<Rightarrow> request list" where
  "requests_of [] = []"
| "requests_of (Fetched req # es) = req # requests_of es"
| "requests_of (e # es) = requests_of es"

definition new_events :: "world \<Rightarrow> world \<Rightarrow> event list" where
  "new_events w w' = drop (length (events w)) (events w')"

definition csrf_headers :: "event list \<Rightarrow> string option list" where
  "csrf_headers es = map (\<lambda>req. map_of (req_headers req) ''X-CSRF-Token'') (requests_of es)"

text \<open>From \<open>w\<close> to \<open>w'\<close> the trace only grew, by events that all satisfy \<open>P\<close>.\<close>

definition emits :: "(event \<Rightarrow> bool) \<Rightarrow> world \<Rightarrow> world \<Rightarrow> bool" where
  "emits P w w' = (\<exists>es. events w' = events w @ es \<and> list_all P es)"

text \<open>The request \<^verbatim>\<open>get\<close> sends when called without options.\<close>

definition get_request :: "env \<Rightarrow> string \<Rightarrow> request" where
  "get_request env endpoint =
     \<lparr>req_url = buildUrl env endpoint, req_method = ''GET'', req_headers = getHeaders False env,
      req_credentials = ''include'', req_body = None\<rparr>"

fun is_DomSet :: "event \<Rightarrow> bool" where
  "is_DomSet (DomSet sel prop c) = True"
| "is_DomSet e = False"

fun is_Fetched :: "event \<Rightarrow> bool" where
  "is_Fetched (Fetched req) = True"
| "is_Fetched e = False"

text \<open>One stage of \<^verbatim>\<open>fetchInitialData\<close>: a request, then, on a truthy \<^verbatim>\<open>success\<close>, the
  snapshot stored and its region updated.\<close>

definition fetch_then_update ::
  "(world \<Rightarrow> (js_error + json) \<times> world) \<Rightarrow> (jsval \<Rightarrow> app \<Rightarrow> app)
    \<Rightarrow> (app \<Rightarrow> world \<Rightarrow> (js_error + unit) \<times> world) \<Rightarrow> app \<Rightarrow> world
    \<Rightarrow> (js_error + unit) \<times> app \<times> world" where
  "fetch_then_update call store update a w =
     (case call w of
        (Inl e, w1) \<Rightarrow> (Inl e, a, w1)
      | (Inr response, w1) \<Rightarrow>
          (case member (Some response) ''success'' of
             Inl e \<Rightarrow> (Inl e, a, w1)
           | Inr success \<Rightarrow>
               (if truthy success
                then (case update (store (opt_member (Some response) ''data'') a) w1 of
                        (r, w2) \<Rightarrow> (r, store (opt_member (Some response) ''data'') a, w2))
                else (Inr (), a, w1))))"

text \<open>The events of a run that has not reached Ready: no banner, no refresh timer, no
  listener, no success log.\<close>

fun before_ready :: "event \<Rightarrow> bool" where
  "before_ready (Fetched req) = True"
| "before_ready (ConsoleError s e) = True"
| "before_ready (ConsoleLog s) = (s \<noteq> ''App initialized successfully'')"
| "before_ready (DomSet sel prop c) = (sel \<noteq> ''#error-container'')"
| "before_ready (SetInterval n cb ms) = (cb = UpdateClock)"
| "before_ready (Slept ms) = False"
| "before_ready (ClearInterval n) = False"
| "before_ready (AddListener target type) = False"

section \<open>Example pages and servers\<close>

definition example_page :: "(nat \<Rightarrow> request \<Rightarrow> js_error + response) \<Rightarrow> env" where
  "example_page net =
     \<lparr>BASE_URL = ''https://shop.example'', cookie = ''lang=ar; csrf_token=abc; theme=dark'',
      meta_csrf = None, fetch = net, URLSearchParams = (\<lambda>v. Inr ''days=7''),
      element = (\<lambda>sel. True), timeString = ''12:00:00'',
      createGoldPriceCard = (\<lambda>price. Inr ''gold card''),
      createCurrencyRateCard = (\<lambda>rate. Inr ''rate card'')\<rparr>"

definition http_error :: "nat \<Rightarrow> response" where
  "http_error s = \<lparr>ok = False, status = s, body = None\<rparr>"

definition http_ok :: "json \<Rightarrow> response" where
  "http_ok v = \<lparr>ok = True, status = 200, body = Some v\<rparr>"

text \<open>A server that answers 503 twice and then succeeds; one that always answers 404;
  one that always answers 503.\<close>

definition net_503_503_ok :: "nat \<Rightarrow> request \<Rightarrow> js_error + response" where
  "net_503_503_ok n req =
     (if n < 2 then Inr (http_error 503) else Inr (http_ok (JObj [(''success'', JBool True)])))"

definition net_404 :: "nat \<Rightarrow> request \<Rightarrow> js_error + response" where
  "net_404 n req = Inr (http_error 404)"

definition net_503 :: "nat \<Rightarrow> request \<Rightarrow> js_error + response" where
  "net_503 n req = Inr (http_error 503)"

text \<open>A page without the cookie, whose \<^verbatim>\<open>csrf-token\<close> meta tag has an empty content.\<close>

definition page_with_empty_meta :: env where
  "page_with_empty_meta = (example_page net_404)\<lparr>cookie := ''lang=ar'', meta_csrf := Some []\<rparr>"

text \<open>A page whose server answers every request with a successful list of two items.\<close>

definition page_with_prices :: env where
  "page_with_prices = example_page (\<lambda>n req. Inr (http_ok
     (JObj [(''success'', JBool True), (''data'', JArr [JObj [(''id'', JNum True ''1'')], JObj [(''id'', JNum True ''2'')]])])))"

text \<open>A server that reports the market open whenever it is asked, and empty lists otherwise.\<close>

definition market_open_server :: "nat \<Rightarrow> request \<Rightarrow> js_error + response" where
  "market_open_server n req =
     (if req_url req = ''https://shop.example/api/settings/market/status''
      then Inr (http_ok (JObj [(''success'', JBool True), (''data'', JObj [(''isOpen'', JBool True)])]))
      else Inr (http_ok (JObj [(''success'', JBool True), (''data'', JArr [])])))"

text \<open>A shop whose server answers one endpoint with 503 and the others successfully.\<close>

definition shop_server :: "string \<Rightarrow> nat \<Rightarrow> request \<Rightarrow> js_error + response" where
  "shop_server down n req =
     (if req_url req = ''https://shop.example/api'' @ down then Inr (http_error 503)
      else if req_url req = ''https://shop.example/api/settings/store''
      then Inr (http_ok (JObj [(''success'', JBool True), (''data'', JObj [(''name'', JStr ''ELAM'')])]))
      else if req_url req = ''https://shop.example/api/settings/market/status''
      then Inr (http_ok (JObj [(''success'', JBool True), (''data'', JObj [(''isOpen'', JBool True)])]))
      else Inr (http_ok (JObj [(''success'', JBool True), (''data'', JArr [])])))"

section \<open>The request client: URLs, headers, responses\<close>

text \<open>
  Claim C7. For every endpoint string, \<^verbatim>\<open>buildUrl\<close> returns the origin, the API prefix,
  one slash, and the endpoint without the slash it may start with: the endpoint's own
  leading slash, when there is one, is the separator, and one is inserted when there is
  none, so both spellings of an endpoint give the same URL.
\<close>

theorem buildUrl_one_separating_slash:
  "buildUrl env endpoint =
     BASE_URL env @ API_PREFIX @ ''/'' @ (if startsWith_slash endpoint then tl endpoint else endpoint)
   \<and> buildUrl env (CHR ''/'' # endpoint) = BASE_URL env @ API_PREFIX @ ''/'' @ endpoint
   \<and> buildUrl env (if startsWith_slash endpoint then endpoint else CHR ''/'' # endpoint)
       = buildUrl env endpoint"
  by (cases endpoint) (simp_all add: buildUrl_def startsWith_slash_def)




section \<open>The request client: retries\<close>

lemma respond_do_fetch:
  "respond (do_fetch env req w) = (attempt_outcome env req (nfetch w), sent req w)"
  by (simp add: respond_def do_fetch_def attempt_outcome_def sent_def split: sum.splits)

lemma call_method_sends:
  assumes "m = Get \<longrightarrow> (\<exists>q. queryParams env d = Inr q)"
  shows "\<exists>req. \<forall>w. call_method env m ep d opts w = (attempt_outcome env req (nfetch w), sent req w)"
proof (cases m)
  case Get
  with assms obtain q where "queryParams env d = Inr q" by auto
  with Get show ?thesis
    by (simp add: call_method_def API_get_def respond_do_fetch Let_def) (intro exI allI conjI; rule refl)
next
  case Post
  then show ?thesis by (simp add: call_method_def API_post_def respond_do_fetch Let_def) (intro exI allI conjI; rule refl)
next
  case Put
  then show ?thesis by (simp add: call_method_def API_put_def respond_do_fetch Let_def) (intro exI allI conjI; rule refl)
next
  case Delete
  then show ?thesis by (simp add: call_method_def API_delete_def respond_do_fetch Let_def) (intro exI allI conjI; rule refl)
qed

lemma loop_success:
  assumes "attempt \<le> maxA" "call_method env m ep d opts w = (Inr v, w1)"
  shows "requestWithRetry_loop env m ep d opts maxA attempt le w = (Inr v, w1)"
  using assms by (subst requestWithRetry_loop.simps) simp

lemma loop_client_error:
  assumes "attempt \<le> maxA" "call_method env m ep d opts w = (Inl e, w1)" "client_error e"
  shows "requestWithRetry_loop env m ep d opts maxA attempt le w = (Inl (Some e), w1)"
  using assms by (subst requestWithRetry_loop.simps) simp

lemma loop_exhausted:
  assumes "attempt = maxA" "call_method env m ep d opts w = (Inl e, w1)" "\<not> client_error e"
  shows "requestWithRetry_loop env m ep d opts maxA attempt le w = (Inl (Some e), w1)"
  using assms
  by (subst requestWithRetry_loop.simps, simp, subst requestWithRetry_loop.simps, simp)

lemma loop_retry:
  assumes "attempt < maxA" "call_method env m ep d opts w = (Inl e, w1)" "\<not> client_error e"
  shows "requestWithRetry_loop env m ep d opts maxA attempt le w =
         requestWithRetry_loop env m ep d opts maxA (attempt + 1) (Some e)
           (emit (Slept (RETRY_DELAY * attempt)) w1)"
  using assms by (subst requestWithRetry_loop.simps) simp

lemma loop_irrelevant_lastError:
  assumes "attempt \<le> maxA"
  shows "requestWithRetry_loop env m ep d opts maxA attempt le w =
         requestWithRetry_loop env m ep d opts maxA attempt le' w"
  using assms
  by (subst requestWithRetry_loop.simps, subst (2) requestWithRetry_loop.simps) simp

lemma nfetch_retried: "nfetch (retried req attempt j w) = nfetch w + j"
  by (induction j arbitrary: attempt w) (simp_all add: emit_def sent_def)

lemma loop_prefix:
  assumes call: "\<forall>w. call_method env m ep d opts w = (attempt_outcome env req (nfetch w), sent req w)"
    and "attempt + int j \<le> maxA"
    and "\<forall>i<j. \<exists>e. attempt_outcome env req (nfetch w + i) = Inl e \<and> \<not> client_error e"
  shows "requestWithRetry_loop env m ep d opts maxA attempt le w =
         requestWithRetry_loop env m ep d opts maxA (attempt + int j) le' (retried req attempt j w)"
  using assms(2,3)
proof (induction j arbitrary: attempt le w)
  case 0
  then show ?case using loop_irrelevant_lastError by simp
next
  case (Suc j)
  from Suc.prems(2) obtain e where e: "attempt_outcome env req (nfetch w) = Inl e" "\<not> client_error e"
    by force
  have lt: "attempt < maxA" using Suc.prems(1) by simp
  have c: "call_method env m ep d opts w = (Inl e, sent req w)" using call e by simp
  let ?w1 = "emit (Slept (RETRY_DELAY * attempt)) (sent req w)"
  have n1: "nfetch ?w1 = Suc (nfetch w)" by (simp add: emit_def sent_def)
  have r: "\<forall>i<j. \<exists>e. attempt_outcome env req (nfetch ?w1 + i) = Inl e \<and> \<not> client_error e"
    using Suc.prems(2) n1 by (metis Suc_less_eq add_Suc_shift add_Suc)
  have b: "attempt + 1 + int j \<le> maxA" using Suc.prems(1) by simp
  have "requestWithRetry_loop env m ep d opts maxA (attempt + 1) (Some e) ?w1 =
      requestWithRetry_loop env m ep d opts maxA (attempt + 1 + int j) le' (retried req (attempt + 1) j ?w1)"
    by (rule Suc.IH [OF b r])
  then show ?case using loop_retry [OF lt c e(2)] by (simp add: ac_simps)
qed

lemma events_retried:
  "events (retried req attempt j w) =
     events w @ concat (map (\<lambda>i. [Fetched req, Slept (RETRY_DELAY * (attempt + int i))]) [0..<j])"
proof (induction j arbitrary: attempt w)
  case 0
  show ?case by simp
next
  case (Suc j)
  have "map (\<lambda>i. [Fetched req, Slept (RETRY_DELAY * (attempt + int i))]) [0..<Suc j] =
        [Fetched req, Slept (RETRY_DELAY * attempt)] #
        map (\<lambda>i. [Fetched req, Slept (RETRY_DELAY * (attempt + 1 + int i))]) [0..<j]"
    by (simp only: upt_conv_Cons [of 0 "Suc j"] map_Suc_upt [symmetric]) (simp add: comp_def ac_simps)
  then show ?case
    by (simp add: Suc.IH emit_def sent_def del: upt_Suc)
qed

lemma map_from_one:
  "map (\<lambda>i. f (1 + int i)) [0..<j] = map (\<lambda>n. f (int n)) [1..<Suc j]"
  by (simp only: One_nat_def map_Suc_upt [symmetric]) (simp add: comp_def)

lemma loop_nfetch_mono:
  assumes call: "\<forall>w. call_method env m ep d opts w = (attempt_outcome env req (nfetch w), sent req w)"
  shows "nfetch w \<le> nfetch (snd (requestWithRetry_loop env m ep d opts maxA attempt le w))"
  using call
proof (induction env m ep d opts maxA attempt le w rule: requestWithRetry_loop.induct)
  case (1 env m ep d opts maxA attempt le w)
  note call = "1.prems"
  have s: "nfetch (sent req w) = Suc (nfetch w)" by (simp add: sent_def emit_def)
  show ?case
  proof (cases "attempt \<le> maxA")
    case False
    then show ?thesis by (subst requestWithRetry_loop.simps) simp
  next
    case True
    show ?thesis
    proof (cases "attempt_outcome env req (nfetch w)")
      case (Inr v)
      then have "call_method env m ep d opts w = (Inr v, sent req w)" using call by simp
      from loop_success [OF True this] show ?thesis by (simp add: s)
    next
      case (Inl e)
      then have c: "call_method env m ep d opts w = (Inl e, sent req w)" using call by simp
      show ?thesis
      proof (cases "client_error e")
        case True
        from loop_client_error [OF \<open>attempt \<le> maxA\<close> c True] show ?thesis by (simp add: s)
      next
        case False
        let ?w1 = "if attempt < maxA then emit (Slept (RETRY_DELAY * attempt)) (sent req w) else sent req w"
        have n: "nfetch ?w1 = Suc (nfetch w)" by (simp add: sent_def emit_def)
        have "nfetch ?w1 \<le> nfetch (snd (requestWithRetry_loop env m ep d opts maxA (attempt + 1) (Some e) ?w1))"
          using "1.IH" [OF True c [symmetric] refl False call] .
        moreover have "requestWithRetry_loop env m ep d opts maxA attempt le w =
            requestWithRetry_loop env m ep d opts maxA (attempt + 1) (Some e) ?w1"
          using True c False by (subst requestWithRetry_loop.simps) simp
        ultimately show ?thesis using n by simp
      qed
    qed
  qed
qed

lemma loop_nfetch_strict:
  assumes call: "\<forall>w. call_method env m ep d opts w = (attempt_outcome env req (nfetch w), sent req w)"
    and le: "attempt \<le> maxA"
  shows "nfetch w < nfetch (snd (requestWithRetry_loop env m ep d opts maxA attempt le w))"
proof -
  have s: "nfetch (sent req w) = Suc (nfetch w)" by (simp add: sent_def emit_def)
  show ?thesis
  proof (cases "attempt_outcome env req (nfetch w)")
    case (Inr v)
    then have "call_method env m ep d opts w = (Inr v, sent req w)" using call by simp
    from loop_success [OF le this] show ?thesis by (simp add: s)
  next
    case (Inl e)
    then have c: "call_method env m ep d opts w = (Inl e, sent req w)" using call by simp
    show ?thesis
    proof (cases "client_error e")
      case True
      from loop_client_error [OF le c True] show ?thesis by (simp add: s)
    next
      case False
      let ?w1 = "if attempt < maxA then emit (Slept (RETRY_DELAY * attempt)) (sent req w) else sent req w"
      have n: "nfetch ?w1 = Suc (nfetch w)" by (simp add: sent_def emit_def)
      have "requestWithRetry_loop env m ep d opts maxA attempt le w =
            requestWithRetry_loop env m ep d opts maxA (attempt + 1) (Some e) ?w1"
        using le c False by (subst requestWithRetry_loop.simps) simp
      moreover have "nfetch ?w1 \<le> nfetch (snd (requestWithRetry_loop env m ep d opts maxA (attempt + 1) (Some e) ?w1))"
        by (rule loop_nfetch_mono [OF call])
      ultimately show ?thesis using n by simp
    qed
  qed
qed


lemma loop_reaches_attempt:
  fixes k :: nat
  assumes call: "\<forall>w. call_method env m ep d opts w = (attempt_outcome env req (nfetch w), sent req w)"
    and k1: "1 \<le> k" and kmax: "int k \<le> maxA"
    and before: "\<forall>i. 1 \<le> i \<and> i < k \<longrightarrow>
        (\<exists>e'. fst (call_method env m ep d opts (w\<lparr>nfetch := nfetch w + (i - 1)\<rparr>)) = Inl e' \<and> \<not> client_error e')"
  shows "requestWithRetry_loop env m ep d opts maxA 1 None w =
         requestWithRetry_loop env m ep d opts maxA (int k) None (retried req 1 (k - 1) w)"
proof -
  have "\<forall>i<k - 1. \<exists>e. attempt_outcome env req (nfetch w + i) = Inl e \<and> \<not> client_error e"
  proof (intro allI impI)
    fix i assume "i < k - 1"
    then have "1 \<le> Suc i \<and> Suc i < k" by simp
    with before have "\<exists>e'. fst (call_method env m ep d opts (w\<lparr>nfetch := nfetch w + (Suc i - 1)\<rparr>)) = Inl e' \<and> \<not> client_error e'"
      by blast
    then show "\<exists>e. attempt_outcome env req (nfetch w + i) = Inl e \<and> \<not> client_error e"
      using call by simp
  qed
  moreover have "1 + int (k - 1) \<le> maxA" using k1 kmax by simp
  ultimately have "requestWithRetry_loop env m ep d opts maxA 1 None w =
         requestWithRetry_loop env m ep d opts maxA (1 + int (k - 1)) None (retried req 1 (k - 1) w)"
    using loop_prefix [OF call] by blast
  moreover have "1 + int (k - 1) = int k" using k1 by simp
  ultimately show ?thesis by simp
qed

text \<open>
  Claim C2. Take a run of \<^verbatim>\<open>requestWithRetry\<close> whose verb sends a request at every
  attempt, and in which attempts \<open>1\<close> to \<open>k - 1\<close> raised errors whose status is outside
  [400, 500) (no status at all, for a network failure) and attempt \<open>k\<close>, within the
  ceiling, raises \<open>e\<close>. If \<open>e\<close> is a client error, or \<open>k\<close> is the ceiling, the run
  rejects with \<open>e\<close> after exactly \<open>k\<close> requests: a 4xx at the first attempt is
  rethrown after one request, and an exhausted run rethrows the last error. Otherwise
  the run goes on to a further request: the error is retried.
\<close>

theorem requestWithRetry_retry_policy:
  fixes k :: nat
  assumes sends: "m = Get \<longrightarrow> (\<exists>q. queryParams env d = Inr q)"
    and k1: "1 \<le> k" and kmax: "int k \<le> maxAttempts_of opts"
    and before: "\<forall>i. 1 \<le> i \<and> i < k \<longrightarrow>
        (\<exists>e'. fst (call_method env m ep d opts (w\<lparr>nfetch := nfetch w + (i - 1)\<rparr>)) = Inl e' \<and> \<not> client_error e')"
    and kth: "fst (call_method env m ep d opts (w\<lparr>nfetch := nfetch w + (k - 1)\<rparr>)) = Inl e"
  shows "(client_error e \<or> int k = maxAttempts_of opts \<longrightarrow>
            fst (requestWithRetry env m ep d opts w) = Inl (Some e)
            \<and> nfetch (snd (requestWithRetry env m ep d opts w)) = nfetch w + k)
       \<and> (\<not> client_error e \<and> int k < maxAttempts_of opts \<longrightarrow>
            nfetch w + k < nfetch (snd (requestWithRetry env m ep d opts w)))"
proof -
  from call_method_sends [OF sends] obtain req where
    call: "\<forall>w. call_method env m ep d opts w = (attempt_outcome env req (nfetch w), sent req w)"
    by blast
  let ?maxA = "maxAttempts_of opts"
  let ?W = "retried req 1 (k - 1) w"
  have run: "requestWithRetry env m ep d opts w =
             requestWithRetry_loop env m ep d opts ?maxA (int k) None ?W"
    unfolding requestWithRetry_def by (rule loop_reaches_attempt [OF call k1 kmax before])
  have nW: "nfetch ?W = nfetch w + (k - 1)" by (rule nfetch_retried)
  have "attempt_outcome env req (nfetch ?W) = Inl e"
    using kth call nW by simp
  then have c: "call_method env m ep d opts ?W = (Inl e, sent req ?W)" using call by simp
  have ns: "nfetch (sent req ?W) = nfetch w + k" using nW k1 by (simp add: sent_def emit_def)
  show ?thesis
  proof (intro conjI impI)
    assume stop: "client_error e \<or> int k = ?maxA"
    have "requestWithRetry_loop env m ep d opts ?maxA (int k) None ?W = (Inl (Some e), sent req ?W)"
    proof (cases "client_error e")
      case True
      then show ?thesis by (rule loop_client_error [OF kmax c])
    next
      case False
      with stop have "int k = ?maxA" by simp
      then show ?thesis using c False by (rule loop_exhausted)
    qed
    with run ns show "fst (requestWithRetry env m ep d opts w) = Inl (Some e)"
      and "nfetch (snd (requestWithRetry env m ep d opts w)) = nfetch w + k" by simp_all
  next
    assume more: "\<not> client_error e \<and> int k < ?maxA"
    let ?W1 = "emit (Slept (RETRY_DELAY * int k)) (sent req ?W)"
    have "requestWithRetry_loop env m ep d opts ?maxA (int k) None ?W =
          requestWithRetry_loop env m ep d opts ?maxA (int k + 1) (Some e) ?W1"
      using more c by (intro loop_retry) simp_all
    moreover have "nfetch ?W1 < nfetch (snd (requestWithRetry_loop env m ep d opts ?maxA (int k + 1) (Some e) ?W1))"
      using more by (intro loop_nfetch_strict [OF call]) simp
    moreover have "nfetch ?W1 = nfetch w + k" using ns by (simp add: emit_def)
    ultimately show "nfetch w + k < nfetch (snd (requestWithRetry env m ep d opts w))"
      using run by simp
  qed
qed

lemmas client_defs =
  call_method_def API_get_def API_post_def API_put_def API_delete_def respond_def do_fetch_def
  handleResponse_def queryParams_def buildUrl_def startsWith_slash_def getHeaders_def
  getCSRFToken_def emit_def API_PREFIX_def Let_def

lemmas example_defs =
  example_page_def net_404_def net_503_def net_503_503_ok_def http_error_def http_ok_def page_load_def

theorem requestWithRetry_retry_policy_witness:
  "fst (requestWithRetry (example_page net_404) Post ''/gold/prices'' (JObj [])
          \<lparr>retryAttempts = None, params = None\<rparr> page_load) =
     Inl (Some \<lparr>err_name = ''Error'', err_message = ''HTTP 404'', err_status = Some 404,
                err_code = Some (JStr ''UNKNOWN_ERROR''), err_data = Some JNull\<rparr>)
   \<and> nfetch (snd (requestWithRetry (example_page net_404) Post ''/gold/prices'' (JObj [])
          \<lparr>retryAttempts = None, params = None\<rparr> page_load)) = 1
   \<and> fst (requestWithRetry (example_page net_503) Post ''/gold/prices'' (JObj [])
          \<lparr>retryAttempts = None, params = None\<rparr> page_load) =
     Inl (Some \<lparr>err_name = ''Error'', err_message = ''HTTP 503'', err_status = Some 503,
                err_code = Some (JStr ''UNKNOWN_ERROR''), err_data = Some JNull\<rparr>)
   \<and> nfetch (snd (requestWithRetry (example_page net_503) Post ''/gold/prices'' (JObj [])
          \<lparr>retryAttempts = None, params = None\<rparr> page_load)) = 3"
proof -
  let ?opts = "\<lparr>retryAttempts = None, params = None\<rparr>"
  let ?e404 = "\<lparr>err_name = ''Error'', err_message = ''HTTP 404'', err_status = Some 404,
                err_code = Some (JStr ''UNKNOWN_ERROR''), err_data = Some JNull\<rparr>"
  let ?e503 = "\<lparr>err_name = ''Error'', err_message = ''HTTP 503'', err_status = Some 503,
                err_code = Some (JStr ''UNKNOWN_ERROR''), err_data = Some JNull\<rparr>"
  have a: "fst (call_method (example_page net_404) Post ''/gold/prices'' (JObj []) ?opts
             (page_load\<lparr>nfetch := nfetch page_load + (1 - 1)\<rparr>)) = Inl ?e404"
    by (simp add: client_defs example_defs decimal.simps)
  have b: "fst (call_method (example_page net_503) Post ''/gold/prices'' (JObj []) ?opts
             (page_load\<lparr>nfetch := n\<rparr>)) = Inl ?e503" for n
    by (simp add: client_defs example_defs decimal.simps)
  have m: "maxAttempts_of ?opts = 3" by (simp add: maxAttempts_of_def RETRY_ATTEMPTS_def)
  have c404: "client_error ?e404" and c503: "\<not> client_error ?e503" by (simp_all add: client_error_def)
  have p: "nfetch page_load = 0" by (simp add: page_load_def)
  from requestWithRetry_retry_policy
         [of Post "example_page net_404" "JObj []" 1 ?opts "''/gold/prices''" page_load ?e404]
       a m c404 p
  have r1: "fst (requestWithRetry (example_page net_404) Post ''/gold/prices'' (JObj []) ?opts page_load)
              = Inl (Some ?e404)
            \<and> nfetch (snd (requestWithRetry (example_page net_404) Post ''/gold/prices'' (JObj []) ?opts page_load)) = 1"
    by simp
  from requestWithRetry_retry_policy
         [of Post "example_page net_503" "JObj []" 3 ?opts "''/gold/prices''" page_load ?e503]
       b m c503 p
  have r2: "fst (requestWithRetry (example_page net_503) Post ''/gold/prices'' (JObj []) ?opts page_load)
              = Inl (Some ?e503)
            \<and> nfetch (snd (requestWithRetry (example_page net_503) Post ''/gold/prices'' (JObj []) ?opts page_load)) = 3"
    by (simp add: page_load_def)
  from r1 r2 show ?thesis by simp
qed

text \<open>
  Claim C3. In a run of \<^verbatim>\<open>requestWithRetry\<close> that ends at attempt \<open>k\<close> (a success, a
  client error, or the ceiling) after \<open>k - 1\<close> retried failures, the trace is the same
  request \<open>k\<close> times, and between the \<open>n\<close>-th request and the next, that is before the
  \<open>n\<close>-th retry, a delay of \<^verbatim>\<open>RETRY_DELAY\<close> times \<open>n\<close> milliseconds. The witness is
  the server that answers 503 twice and then succeeds, under the default ceiling of 3:
  three requests, delays of 1000 and 2000 ms, and the success payload returned.
\<close>

theorem requestWithRetry_linear_backoff:
  fixes k :: nat
  assumes sends: "m = Get \<longrightarrow> (\<exists>q. queryParams env d = Inr q)"
    and k1: "1 \<le> k" and kmax: "int k \<le> maxAttempts_of opts"
    and before: "\<forall>i. 1 \<le> i \<and> i < k \<longrightarrow>
        (\<exists>e'. fst (call_method env m ep d opts (w\<lparr>nfetch := nfetch w + (i - 1)\<rparr>)) = Inl e' \<and> \<not> client_error e')"
    and last: "case fst (call_method env m ep d opts (w\<lparr>nfetch := nfetch w + (k - 1)\<rparr>)) of
                 Inr v \<Rightarrow> True
               | Inl e \<Rightarrow> client_error e \<or> int k = maxAttempts_of opts"
  shows "\<exists>req.
           events (snd (requestWithRetry env m ep d opts w)) =
             events w @ concat (map (\<lambda>n. [Fetched req, Slept (RETRY_DELAY * int n)]) [1..<k]) @ [Fetched req]
         \<and> fst (requestWithRetry env m ep d opts w) =
             (case fst (call_method env m ep d opts (w\<lparr>nfetch := nfetch w + (k - 1)\<rparr>)) of
                Inr v \<Rightarrow> Inr v
              | Inl e \<Rightarrow> Inl (Some e))"
proof -
  from call_method_sends [OF sends] obtain req where
    call: "\<forall>w. call_method env m ep d opts w = (attempt_outcome env req (nfetch w), sent req w)"
    by blast
  let ?maxA = "maxAttempts_of opts"
  let ?W = "retried req 1 (k - 1) w"
  let ?out = "fst (call_method env m ep d opts (w\<lparr>nfetch := nfetch w + (k - 1)\<rparr>))"
  have run: "requestWithRetry env m ep d opts w =
             requestWithRetry_loop env m ep d opts ?maxA (int k) None ?W"
    unfolding requestWithRetry_def by (rule loop_reaches_attempt [OF call k1 kmax before])
  have nW: "nfetch ?W = nfetch w + (k - 1)" by (rule nfetch_retried)
  have out: "attempt_outcome env req (nfetch ?W) = ?out"
    using call nW by simp
  then have c: "call_method env m ep d opts ?W = (?out, sent req ?W)" using call by simp
  have "Suc (k - 1) = k" using k1 by simp
  then have "map (\<lambda>i. [Fetched req, Slept (RETRY_DELAY * (1 + int i))]) [0..<k - 1] =
        map (\<lambda>n. [Fetched req, Slept (RETRY_DELAY * int n)]) [1..<k]"
    using map_from_one [of "\<lambda>x. [Fetched req, Slept (RETRY_DELAY * x)]" "k - 1"] by simp
  then have ev: "events (sent req ?W) =
      events w @ concat (map (\<lambda>n. [Fetched req, Slept (RETRY_DELAY * int n)]) [1..<k]) @ [Fetched req]"
    by (simp add: events_retried sent_def emit_def)
  have res: "requestWithRetry_loop env m ep d opts ?maxA (int k) None ?W =
          ((case ?out of Inr v \<Rightarrow> Inr v | Inl e \<Rightarrow> Inl (Some e)), sent req ?W)"
  proof (cases ?out)
    case (Inr v)
    with c have "call_method env m ep d opts ?W = (Inr v, sent req ?W)" by simp
    from loop_success [OF kmax this] Inr show ?thesis by simp
  next
    case (Inl e)
    with c have c': "call_method env m ep d opts ?W = (Inl e, sent req ?W)" by simp
    from last Inl have stop: "client_error e \<or> int k = ?maxA" by simp
    show ?thesis
    proof (cases "client_error e")
      case True
      from loop_client_error [OF kmax c' True] Inl show ?thesis by simp
    next
      case False
      with stop have "int k = ?maxA" by simp
      from loop_exhausted [OF this c' False] Inl show ?thesis by simp
    qed
  qed
  from run res ev show ?thesis by (intro exI [of _ req]) simp
qed

theorem requestWithRetry_linear_backoff_witness:
  "\<exists>req.
     events (snd (requestWithRetry (example_page net_503_503_ok) Post ''/gold/prices'' (JObj [])
          \<lparr>retryAttempts = None, params = None\<rparr> page_load)) =
       [Fetched req, Slept 1000, Fetched req, Slept 2000, Fetched req]
   \<and> fst (requestWithRetry (example_page net_503_503_ok) Post ''/gold/prices'' (JObj [])
          \<lparr>retryAttempts = None, params = None\<rparr> page_load) =
       Inr (JObj [(''success'', JBool True)])"
proof -
  let ?opts = "\<lparr>retryAttempts = None, params = None\<rparr>"
  let ?e503 = "\<lparr>err_name = ''Error'', err_message = ''HTTP 503'', err_status = Some 503,
                err_code = Some (JStr ''UNKNOWN_ERROR''), err_data = Some JNull\<rparr>"
  have b: "n < 2 \<Longrightarrow> fst (call_method (example_page net_503_503_ok) Post ''/gold/prices'' (JObj []) ?opts
             (page_load\<lparr>nfetch := n\<rparr>)) = Inl ?e503" for n
    by (simp add: client_defs example_defs decimal.simps)
  have g: "fst (call_method (example_page net_503_503_ok) Post ''/gold/prices'' (JObj []) ?opts
             (page_load\<lparr>nfetch := nfetch page_load + (3 - 1)\<rparr>)) = Inr (JObj [(''success'', JBool True)])"
    by (simp add: client_defs example_defs)
  have c503: "\<not> client_error ?e503" by (simp add: client_error_def)
  have p: "nfetch page_load = 0" "events page_load = []" by (simp_all add: page_load_def)
  have u: "[Suc 0..<3] = [1, 2::nat]" by (simp add: upt_rec)
  have sends: "Post = Get \<longrightarrow> (\<exists>q. queryParams (example_page net_503_503_ok) (JObj []) = Inr q)"
    by simp
  have k1: "1 \<le> (3::nat)" by simp
  have kmax: "int 3 \<le> maxAttempts_of ?opts" by (simp add: maxAttempts_of_def RETRY_ATTEMPTS_def)
  have before: "\<forall>i. 1 \<le> i \<and> i < (3::nat) \<longrightarrow>
      (\<exists>e'. fst (call_method (example_page net_503_503_ok) Post ''/gold/prices'' (JObj []) ?opts
                   (page_load\<lparr>nfetch := nfetch page_load + (i - 1)\<rparr>)) = Inl e' \<and> \<not> client_error e')"
    using b c503 p by auto
  have last: "case fst (call_method (example_page net_503_503_ok) Post ''/gold/prices'' (JObj []) ?opts
                   (page_load\<lparr>nfetch := nfetch page_load + (3 - 1)\<rparr>)) of
                Inr v \<Rightarrow> True
              | Inl e \<Rightarrow> client_error e \<or> int 3 = maxAttempts_of ?opts"
    unfolding g by simp
  note run = requestWithRetry_linear_backoff [OF sends k1 kmax before last, unfolded g]
  then show ?thesis by (simp add: p u RETRY_DELAY_def)
qed

lemma call_method_options:
  "call_method env m ep d opts w = call_method env m ep d opts' w"
  by (cases m) (simp_all add: call_method_def API_post_def API_put_def)

lemma loop_options:
  "requestWithRetry_loop env m ep d opts maxA attempt le w =
   requestWithRetry_loop env m ep d opts' maxA attempt le w"
proof (induction env m ep d opts maxA attempt le w rule: requestWithRetry_loop.induct)
  case (1 env m ep d opts maxA attempt le w)
  show ?case
  proof (cases "attempt \<le> maxA")
    case False
    then show ?thesis
      by (subst requestWithRetry_loop.simps, subst (2) requestWithRetry_loop.simps) simp
  next
    case True
    obtain r w1 where c: "call_method env m ep d opts w = (r, w1)" by (cases "call_method env m ep d opts w")
    then have c': "call_method env m ep d opts' w = (r, w1)" using call_method_options by metis
    show ?thesis
    proof (cases r)
      case (Inr v)
      with True c c' show ?thesis by (simp add: loop_success)
    next
      case (Inl e)
      show ?thesis
      proof (cases "client_error e")
        case True
        with \<open>attempt \<le> maxA\<close> c c' Inl show ?thesis by (simp add: loop_client_error)
      next
        case False
        from "1.IH" [OF True c [symmetric] Inl False]
        show ?thesis
          using True c c' Inl False
          by (subst requestWithRetry_loop.simps, subst (2) requestWithRetry_loop.simps) simp
      qed
    qed
  qed
qed

text \<open>
  Claim C9. Called through \<^verbatim>\<open>requestWithRetry\<close>, \<^verbatim>\<open>get\<close> and \<^verbatim>\<open>delete\<close> receive
  \<open>data\<close> where they expect their options, and the caller's options never reach them:
  the run is the same whatever \<^verbatim>\<open>params\<close> the options hold, and depends on the
  options through \<^verbatim>\<open>retryAttempts\<close> alone.
\<close>

theorem requestWithRetry_drops_options:
  "call_method env Get ep d opts w = API_get env ep (Some d) w
   \<and> call_method env Delete ep d opts w = API_delete env ep (Some d) w
   \<and> requestWithRetry env Get ep d \<lparr>retryAttempts = r, params = p\<rparr> w =
       requestWithRetry env Get ep d \<lparr>retryAttempts = r, params = p'\<rparr> w
   \<and> requestWithRetry env Delete ep d \<lparr>retryAttempts = r, params = p\<rparr> w =
       requestWithRetry env Delete ep d \<lparr>retryAttempts = r, params = p'\<rparr> w"
proof -
  have "maxAttempts_of \<lparr>retryAttempts = r, params = p\<rparr> = maxAttempts_of \<lparr>retryAttempts = r, params = p'\<rparr>"
    by (simp add: maxAttempts_of_def)
  then have "requestWithRetry env m ep d \<lparr>retryAttempts = r, params = p\<rparr> w =
       requestWithRetry env m ep d \<lparr>retryAttempts = r, params = p'\<rparr> w" for m
    unfolding requestWithRetry_def using loop_options by metis
  then show ?thesis by (simp add: call_method_def)
qed

text \<open>With the default \<open>data = null\<close>, \<^verbatim>\<open>get\<close> reads \<^verbatim>\<open>params\<close> of \<^verbatim>\<open>null\<close>:
  a TypeError, before any request is sent.\<close>

lemma get_null_options:
  "\<exists>e. call_method env Get ep JNull opts w = (Inl e, w)"
  by (simp add: call_method_def API_get_def queryParams_def Let_def)

section \<open>Headers, timers and the refresh cycle\<close>

lemma strip_prefix_Some: "strip_prefix p s = Some r \<longleftrightarrow> s = p @ r"
  by (induction p s rule: strip_prefix.induct) auto

lemma match_csrf_cookie_nonempty: "match_csrf_cookie s = Some t \<Longrightarrow> t \<noteq> []"
  by (induction s) (auto split: option.splits if_splits)

lemma takeWhile_empty_iff: "takeWhile P xs = [] \<longleftrightarrow> (xs = [] \<or> \<not> P (hd xs))"
  by (cases xs) auto

lemma match_csrf_cookie_iff:
  "match_csrf_cookie s \<noteq> None \<longleftrightarrow>
     (\<exists>pre c rest. s = pre @ ''csrf_token='' @ c # rest \<and> c \<noteq> CHR '';'')"
proof (induction s)
  case Nil
  show ?case by simp
next
  case (Cons a s)
  let ?lit = "''csrf_token=''"
  let ?R = "\<lambda>s. \<exists>pre c rest. s = pre @ ?lit @ c # rest \<and> c \<noteq> CHR '';''"
  have here: "(\<exists>c rest. a # s = ?lit @ c # rest \<and> c \<noteq> CHR '';'') \<longleftrightarrow>
      (\<exists>r. strip_prefix ?lit (a # s) = Some r \<and> takeWhile (\<lambda>x. x \<noteq> CHR '';'') r \<noteq> [])"
    unfolding strip_prefix_Some takeWhile_empty_iff
    by (metis list.exhaust_sel list.sel(1) list.distinct(1))
  have split: "?R (a # s) \<longleftrightarrow> (\<exists>c rest. a # s = ?lit @ c # rest \<and> c \<noteq> CHR '';'') \<or> ?R s"
  proof
    assume "?R (a # s)"
    then obtain pre c rest where p: "a # s = pre @ ?lit @ c # rest" "c \<noteq> CHR '';''" by blast
    show "(\<exists>c rest. a # s = ?lit @ c # rest \<and> c \<noteq> CHR '';'') \<or> ?R s"
    proof (cases pre)
      case Nil
      with p show ?thesis by auto
    next
      case (Cons b pre')
      with p have "s = pre' @ ?lit @ c # rest" by simp
      with p(2) show ?thesis by blast
    qed
  next
    assume "(\<exists>c rest. a # s = ?lit @ c # rest \<and> c \<noteq> CHR '';'') \<or> ?R s"
    then show "?R (a # s)"
    proof
      assume "\<exists>c rest. a # s = ?lit @ c # rest \<and> c \<noteq> CHR '';''"
      then show ?thesis by (metis append_Nil)
    next
      assume "?R s"
      then obtain pre c rest where "s = pre @ ?lit @ c # rest" "c \<noteq> CHR '';''" by blast
      then have "a # s = (a # pre) @ ?lit @ c # rest" by simp
      with \<open>c \<noteq> CHR '';''\<close> show ?thesis by blast
    qed
  qed
  have "match_csrf_cookie (a # s) \<noteq> None \<longleftrightarrow>
      (\<exists>r. strip_prefix ?lit (a # s) = Some r \<and> takeWhile (\<lambda>x. x \<noteq> CHR '';'') r \<noteq> [])
      \<or> match_csrf_cookie s \<noteq> None"
    by (auto split: option.splits)
  with here split Cons.IH show ?case by simp
qed

lemma new_events_same: "new_events w w = []"
  by (simp add: new_events_def)

lemma new_events_sent: "new_events w (sent req w) = [Fetched req]"
  by (simp add: new_events_def sent_def emit_def)

lemma getHeaders_token:
  "map_of (getHeaders True env) ''X-CSRF-Token'' =
     (case getCSRFToken env of None \<Rightarrow> None | Some t \<Rightarrow> if t = [] then None else Some t)"
  by (simp add: getHeaders_def split: option.splits)

text \<open>
  Claim C6, as amended. \<^verbatim>\<open>getHeaders(false)\<close> never has \<^verbatim>\<open>X-CSRF-Token\<close>;
  \<^verbatim>\<open>getHeaders(true)\<close> has it exactly when a non-empty token is found: the cookie string
  contains \<^verbatim>\<open>csrf_token=\<close> followed by a character other than \<^verbatim>\<open>;\<close>, or the
  meta tag exists with a non-empty content; its value is the cookie's token, or failing
  that the meta tag's content. A request sent by \<^verbatim>\<open>get\<close> never carries the header;
  the one request \<^verbatim>\<open>post\<close>, \<^verbatim>\<open>put\<close> or \<^verbatim>\<open>delete\<close> sends carries exactly what
  \<^verbatim>\<open>getHeaders(true)\<close> has.
\<close>

theorem csrf_header_iff_nonempty_token:
  "map_of (getHeaders False env) ''X-CSRF-Token'' = None
   \<and> (map_of (getHeaders True env) ''X-CSRF-Token'' \<noteq> None \<longleftrightarrow>
        (\<exists>pre c rest. cookie env = pre @ ''csrf_token='' @ c # rest \<and> c \<noteq> CHR '';'')
        \<or> (\<exists>c. meta_csrf env = Some c \<and> c \<noteq> []))
   \<and> map_of (getHeaders True env) ''X-CSRF-Token'' =
        (case match_csrf_cookie (cookie env) of
           Some t \<Rightarrow> Some t
         | None \<Rightarrow> (case meta_csrf env of None \<Rightarrow> None | Some c \<Rightarrow> if c = [] then None else Some c))
   \<and> set (csrf_headers (new_events w (snd (API_get env ep options w)))) \<subseteq> {None}
   \<and> csrf_headers (new_events w (snd (API_post env ep d opts w))) =
        [map_of (getHeaders True env) ''X-CSRF-Token'']
   \<and> csrf_headers (new_events w (snd (API_put env ep d opts w))) =
        [map_of (getHeaders True env) ''X-CSRF-Token'']
   \<and> csrf_headers (new_events w (snd (API_delete env ep opts w))) =
        [map_of (getHeaders True env) ''X-CSRF-Token'']"
proof (intro conjI)
  show "map_of (getHeaders False env) ''X-CSRF-Token'' = None"
    by (simp add: getHeaders_def)
  show tok: "map_of (getHeaders True env) ''X-CSRF-Token'' =
        (case match_csrf_cookie (cookie env) of
           Some t \<Rightarrow> Some t
         | None \<Rightarrow> (case meta_csrf env of None \<Rightarrow> None | Some c \<Rightarrow> if c = [] then None else Some c))"
    by (auto simp: getHeaders_token getCSRFToken_def split: option.splits
             dest: match_csrf_cookie_nonempty)
  show "map_of (getHeaders True env) ''X-CSRF-Token'' \<noteq> None \<longleftrightarrow>
        (\<exists>pre c rest. cookie env = pre @ ''csrf_token='' @ c # rest \<and> c \<noteq> CHR '';'')
        \<or> (\<exists>c. meta_csrf env = Some c \<and> c \<noteq> [])"
    unfolding tok match_csrf_cookie_iff [symmetric]
    by (auto split: option.splits)
  show "set (csrf_headers (new_events w (snd (API_get env ep options w)))) \<subseteq> {None}"
    by (cases "queryParams env (case options of None \<Rightarrow> JObj [] | Some v \<Rightarrow> v)")
       (simp_all add: API_get_def Let_def respond_do_fetch new_events_sent new_events_same
          csrf_headers_def getHeaders_def)
  show "csrf_headers (new_events w (snd (API_post env ep d opts w))) =
        [map_of (getHeaders True env) ''X-CSRF-Token'']"
    by (simp add: API_post_def Let_def respond_do_fetch new_events_sent csrf_headers_def)
  show "csrf_headers (new_events w (snd (API_put env ep d opts w))) =
        [map_of (getHeaders True env) ''X-CSRF-Token'']"
    by (simp add: API_put_def Let_def respond_do_fetch new_events_sent csrf_headers_def)
  show "csrf_headers (new_events w (snd (API_delete env ep opts w))) =
        [map_of (getHeaders True env) ''X-CSRF-Token'']"
    by (simp add: API_delete_def Let_def respond_do_fetch new_events_sent csrf_headers_def)
qed

lemma example_cookie_token: "match_csrf_cookie ''lang=ar; csrf_token=abc; theme=dark'' = Some ''abc''"
  by simp

text \<open>On the example page the cookie yields the token \<^verbatim>\<open>abc\<close>, and a POST carries it.\<close>

theorem csrf_header_example:
  "map_of (getHeaders True (example_page net_404)) ''X-CSRF-Token'' = Some ''abc''
   \<and> csrf_headers (new_events page_load (snd (API_post (example_page net_404) ''/auth/logout'' None () page_load)))
       = [Some ''abc'']"
proof -
  have c: "cookie (example_page net_404) = ''lang=ar; csrf_token=abc; theme=dark''"
    by (simp add: example_page_def)
  from csrf_header_iff_nonempty_token [of "example_page net_404" page_load "''/auth/logout''" None None "()"]
  show ?thesis unfolding c example_cookie_token by simp
qed

text \<open>
  Counterexample to claim C6 as stated: a meta tag is present, with an empty content,
  and \<^verbatim>\<open>getHeaders(true)\<close> has no \<^verbatim>\<open>X-CSRF-Token\<close>.
\<close>

theorem csrf_header_empty_meta_counterexample:
  "cookie page_with_empty_meta = ''lang=ar''
   \<and> meta_csrf page_with_empty_meta = Some []
   \<and> map_of (getHeaders True page_with_empty_meta) ''X-CSRF-Token'' = None"
  by (simp add: page_with_empty_meta_def example_page_def getHeaders_def getCSRFToken_def)

text \<open>
  Claim C8. After \<^verbatim>\<open>stopAutoUpdate\<close> both timer handles are \<^verbatim>\<open>null\<close>, and a second
  call changes nothing: neither the application nor the world, so no timer is cleared
  again. The function has no raising path (no operation in it can throw), which is why
  its model returns no error.
\<close>

theorem stopAutoUpdate_idempotent:
  "(case stopAutoUpdate a w of
      (a1, w1) \<Rightarrow> updateInterval a1 = None \<and> clockInterval a1 = None \<and> stopAutoUpdate a1 w1 = (a1, w1))"
  by (simp add: stopAutoUpdate_def split: option.splits prod.splits)

lemma emits_refl: "emits P w w"
  by (simp add: emits_def)

lemma emits_trans: "emits P w w1 \<Longrightarrow> emits P w1 w2 \<Longrightarrow> emits P w w2"
  by (auto simp: emits_def)

lemma emits_emit: "P e \<Longrightarrow> emits P w (emit e w)"
  by (simp add: emits_def emit_def)

lemma emits_emit_after: "emits P w w1 \<Longrightarrow> P e \<Longrightarrow> emits P w (emit e w1)"
  by (auto simp: emits_def emit_def)

lemma emits_sent: "P (Fetched req) \<Longrightarrow> emits P w (sent req w)"
  by (simp add: emits_def sent_def emit_def)

lemma member_Some:
  "member (Some v) k = (if v = JNull then Inl (cannot_read ''null'' k) else Inr (opt_member (Some v) k))"
  by (cases v) simp_all

lemma API_get_no_options:
  "API_get env endpoint None w =
     (attempt_outcome env (get_request env endpoint) (nfetch w), sent (get_request env endpoint) w)"
  by (simp add: API_get_def queryParams_def Let_def respond_do_fetch get_request_def)

lemma render_list_emits:
  assumes "\<And>c. P (DomSet sel ''innerHTML'' c)"
  shows "emits P w (snd (render_list env sel name snapshot mk w))"
  using assms
  by (auto simp: render_list_def emits_refl emits_emit split: option.splits json.splits sum.splits)

lemma render_list_emitsD:
  assumes "\<And>c. P (DomSet sel ''innerHTML'' c)" "render_list env sel name snapshot mk w = (r, w')"
  shows "emits P w w'"
  using render_list_emits [of P sel w env name snapshot mk, OF assms(1)] assms(2) by simp

lemma GoldAPI_getAllPrices_eq:
  "GoldAPI_getAllPrices env w =
     (attempt_outcome env (get_request env ''/gold/prices'') (nfetch w),
      sent (get_request env ''/gold/prices'') w)"
  by (simp add: GoldAPI_getAllPrices_def API_get_no_options)

lemma CurrencyAPI_getAllRates_eq:
  "CurrencyAPI_getAllRates env w =
     (attempt_outcome env (get_request env ''/currency/rates'') (nfetch w),
      sent (get_request env ''/currency/rates'') w)"
  by (simp add: CurrencyAPI_getAllRates_def API_get_no_options)

lemma new_events_sent_emit: "new_events w (emit e (sent req w)) = [Fetched req, e]"
  by (simp add: new_events_def sent_def emit_def)

text \<open>
  Claim C10. When the request of \<^verbatim>\<open>fetchGoldPrices\<close> raises, or its payload is
  \<^verbatim>\<open>null\<close> or has no truthy \<^verbatim>\<open>success\<close>, the application is unchanged (the
  snapshot with it) and nothing is written to the DOM. On a payload with a truthy
  \<^verbatim>\<open>success\<close> the snapshot is replaced by the payload's \<^verbatim>\<open>data\<close>, no other field
  changes, and \<^verbatim>\<open>renderGoldPrices\<close> runs on the new snapshot (an error it throws is
  logged). The same holds of \<^verbatim>\<open>fetchCurrencyRates\<close>.
\<close>

theorem fetch_snapshot_atomic:
  "(\<not> (case fst (GoldAPI_getAllPrices env w) of
          Inl e \<Rightarrow> False | Inr response \<Rightarrow> truthy (opt_member (Some response) ''success'')) \<longrightarrow>
      fst (fetchGoldPrices env a w) = a
      \<and> filter is_DomSet (new_events w (snd (fetchGoldPrices env a w))) = [])
   \<and> (\<forall>response.
        fst (GoldAPI_getAllPrices env w) = Inr response \<and> truthy (opt_member (Some response) ''success'') \<longrightarrow>
        fst (fetchGoldPrices env a w) = a\<lparr>goldPrices := opt_member (Some response) ''data''\<rparr>
        \<and> snd (fetchGoldPrices env a w) =
            (case renderGoldPrices env (a\<lparr>goldPrices := opt_member (Some response) ''data''\<rparr>)
                    (snd (GoldAPI_getAllPrices env w)) of
               (Inl e, w2) \<Rightarrow> emit (ConsoleError ''Error fetching gold prices:'' e) w2
             | (Inr u, w2) \<Rightarrow> w2))
   \<and> (\<not> (case fst (CurrencyAPI_getAllRates env w) of
          Inl e \<Rightarrow> False | Inr response \<Rightarrow> truthy (opt_member (Some response) ''success'')) \<longrightarrow>
      fst (fetchCurrencyRates env a w) = a
      \<and> filter is_DomSet (new_events w (snd (fetchCurrencyRates env a w))) = [])
   \<and> (\<forall>response.
        fst (CurrencyAPI_getAllRates env w) = Inr response \<and> truthy (opt_member (Some response) ''success'') \<longrightarrow>
        fst (fetchCurrencyRates env a w) = a\<lparr>currencyRates := opt_member (Some response) ''data''\<rparr>
        \<and> snd (fetchCurrencyRates env a w) =
            (case renderCurrencyRates env (a\<lparr>currencyRates := opt_member (Some response) ''data''\<rparr>)
                    (snd (CurrencyAPI_getAllRates env w)) of
               (Inl e, w2) \<Rightarrow> emit (ConsoleError ''Error fetching currency rates:'' e) w2
             | (Inr u, w2) \<Rightarrow> w2))"
proof (intro conjI impI allI)
  assume f: "\<not> (case fst (GoldAPI_getAllPrices env w) of
          Inl e \<Rightarrow> False | Inr response \<Rightarrow> truthy (opt_member (Some response) ''success''))"
  then show "fst (fetchGoldPrices env a w) = a"
    by (auto simp: fetchGoldPrices_def fetchGoldPrices_settle_def GoldAPI_getAllPrices_eq member_Some split: sum.splits)
  from f show "filter is_DomSet (new_events w (snd (fetchGoldPrices env a w))) = []"
    by (auto simp: fetchGoldPrices_def fetchGoldPrices_settle_def GoldAPI_getAllPrices_eq member_Some new_events_sent
          new_events_sent_emit split: sum.splits)
next
  fix response
  assume s: "fst (GoldAPI_getAllPrices env w) = Inr response \<and> truthy (opt_member (Some response) ''success'')"
  then have n: "response \<noteq> JNull" by auto
  from s n show "fst (fetchGoldPrices env a w) = a\<lparr>goldPrices := opt_member (Some response) ''data''\<rparr>"
    by (auto simp: fetchGoldPrices_def fetchGoldPrices_settle_def GoldAPI_getAllPrices_eq member_Some split: sum.splits prod.splits)
  from s n show "snd (fetchGoldPrices env a w) =
            (case renderGoldPrices env (a\<lparr>goldPrices := opt_member (Some response) ''data''\<rparr>)
                    (snd (GoldAPI_getAllPrices env w)) of
               (Inl e, w2) \<Rightarrow> emit (ConsoleError ''Error fetching gold prices:'' e) w2
             | (Inr u, w2) \<Rightarrow> w2)"
    by (auto simp: fetchGoldPrices_def fetchGoldPrices_settle_def GoldAPI_getAllPrices_eq member_Some split: sum.splits prod.splits)
next
  assume f: "\<not> (case fst (CurrencyAPI_getAllRates env w) of
          Inl e \<Rightarrow> False | Inr response \<Rightarrow> truthy (opt_member (Some response) ''success''))"
  then show "fst (fetchCurrencyRates env a w) = a"
    by (auto simp: fetchCurrencyRates_def fetchCurrencyRates_settle_def CurrencyAPI_getAllRates_eq member_Some split: sum.splits)
  from f show "filter is_DomSet (new_events w (snd (fetchCurrencyRates env a w))) = []"
    by (auto simp: fetchCurrencyRates_def fetchCurrencyRates_settle_def CurrencyAPI_getAllRates_eq member_Some new_events_sent
          new_events_sent_emit split: sum.splits)
next
  fix response
  assume s: "fst (CurrencyAPI_getAllRates env w) = Inr response \<and> truthy (opt_member (Some response) ''success'')"
  then have n: "response \<noteq> JNull" by auto
  from s n show "fst (fetchCurrencyRates env a w) = a\<lparr>currencyRates := opt_member (Some response) ''data''\<rparr>"
    by (auto simp: fetchCurrencyRates_def fetchCurrencyRates_settle_def CurrencyAPI_getAllRates_eq member_Some split: sum.splits prod.splits)
  from s n show "snd (fetchCurrencyRates env a w) =
            (case renderCurrencyRates env (a\<lparr>currencyRates := opt_member (Some response) ''data''\<rparr>)
                    (snd (CurrencyAPI_getAllRates env w)) of
               (Inl e, w2) \<Rightarrow> emit (ConsoleError ''Error fetching currency rates:'' e) w2
             | (Inr u, w2) \<Rightarrow> w2)"
    by (auto simp: fetchCurrencyRates_def fetchCurrencyRates_settle_def CurrencyAPI_getAllRates_eq member_Some split: sum.splits prod.splits)
qed

theorem fetch_snapshot_atomic_witness:
  "fst (fetchGoldPrices (example_page net_503) GoldMarketApp_fields page_load) = GoldMarketApp_fields
   \<and> filter is_DomSet
        (new_events page_load (snd (fetchGoldPrices (example_page net_503) GoldMarketApp_fields page_load))) = []
   \<and> goldPrices (fst (fetchGoldPrices page_with_prices GoldMarketApp_fields page_load)) =
        Some (JArr [JObj [(''id'', JNum True ''1'')], JObj [(''id'', JNum True ''2'')]])
   \<and> filter is_DomSet
        (new_events page_load (snd (fetchGoldPrices page_with_prices GoldMarketApp_fields page_load))) =
        [DomSet ''#gold-prices-grid'' ''innerHTML'' (Cards [''gold card'', ''gold card''])]"
proof -
  let ?resp = "JObj [(''success'', JBool True), (''data'', JArr [JObj [(''id'', JNum True ''1'')], JObj [(''id'', JNum True ''2'')]])]"
  have down: "\<not> (case fst (GoldAPI_getAllPrices (example_page net_503) page_load) of
          Inl e \<Rightarrow> False | Inr response \<Rightarrow> truthy (opt_member (Some response) ''success''))"
    by (simp add: GoldAPI_getAllPrices_def client_defs example_defs)
  have up: "fst (GoldAPI_getAllPrices page_with_prices page_load) = Inr ?resp
            \<and> truthy (opt_member (Some ?resp) ''success'')"
    by (simp add: GoldAPI_getAllPrices_def page_with_prices_def client_defs example_defs)
  have rendered: "filter is_DomSet (new_events page_load
        (case renderGoldPrices page_with_prices
                (GoldMarketApp_fields\<lparr>goldPrices := opt_member (Some ?resp) ''data''\<rparr>)
                (snd (GoldAPI_getAllPrices page_with_prices page_load)) of
           (Inl e, w2) \<Rightarrow> emit (ConsoleError ''Error fetching gold prices:'' e) w2
         | (Inr u, w2) \<Rightarrow> w2)) =
        [DomSet ''#gold-prices-grid'' ''innerHTML'' (Cards [''gold card'', ''gold card''])]"
    by (simp add: GoldAPI_getAllPrices_def page_with_prices_def client_defs example_defs
          renderGoldPrices_def render_list_def new_events_def)
  from fetch_snapshot_atomic [of "example_page net_503" page_load GoldMarketApp_fields] down
  have a: "fst (fetchGoldPrices (example_page net_503) GoldMarketApp_fields page_load) = GoldMarketApp_fields
     \<and> filter is_DomSet
        (new_events page_load (snd (fetchGoldPrices (example_page net_503) GoldMarketApp_fields page_load))) = []"
    by blast
  from fetch_snapshot_atomic [of page_with_prices page_load GoldMarketApp_fields] up
  have b: "fst (fetchGoldPrices page_with_prices GoldMarketApp_fields page_load) =
            GoldMarketApp_fields\<lparr>goldPrices := opt_member (Some ?resp) ''data''\<rparr>
     \<and> snd (fetchGoldPrices page_with_prices GoldMarketApp_fields page_load) =
        (case renderGoldPrices page_with_prices
                (GoldMarketApp_fields\<lparr>goldPrices := opt_member (Some ?resp) ''data''\<rparr>)
                (snd (GoldAPI_getAllPrices page_with_prices page_load)) of
           (Inl e, w2) \<Rightarrow> emit (ConsoleError ''Error fetching gold prices:'' e) w2
         | (Inr u, w2) \<Rightarrow> w2)"
    by blast
  from a b rendered show ?thesis by simp
qed

lemma requests_of_append: "requests_of (xs @ ys) = requests_of xs @ requests_of ys"
  by (induction xs rule: requests_of.induct) simp_all

lemma requests_of_none: "list_all (\<lambda>e. \<not> is_Fetched e) es \<Longrightarrow> requests_of es = []"
  by (induction es rule: requests_of.induct) simp_all

lemma fetchGoldPrices_settle_emits:
  assumes ce: "\<And>s e. P (ConsoleError s e)" and ds: "\<And>c. P (DomSet ''#gold-prices-grid'' ''innerHTML'' c)"
  shows "emits P w1 (snd (fetchGoldPrices_settle env a (r, w1)))"
proof (cases r)
  case (Inl e)
  then show ?thesis by (simp add: fetchGoldPrices_settle_def emits_emit ce)
next
  case (Inr response)
  show ?thesis
  proof (cases "response \<noteq> JNull \<and> truthy (opt_member (Some response) ''success'')")
    case False
    with Inr show ?thesis
      by (auto simp: fetchGoldPrices_settle_def member_Some emits_emit emits_refl ce)
  next
    case True
    let ?a = "a\<lparr>goldPrices := opt_member (Some response) ''data''\<rparr>"
    obtain r2 w2 where rn: "renderGoldPrices env ?a w1 = (r2, w2)" by (cases "renderGoldPrices env ?a w1")
    have e: "emits P w1 w2"
      by (rule render_list_emitsD [of P "''#gold-prices-grid''", OF ds rn [unfolded renderGoldPrices_def]])
    from Inr True rn e show ?thesis
      by (cases r2) (simp_all add: fetchGoldPrices_settle_def member_Some emits_emit_after ce)
  qed
qed

lemma fetchGoldPrices_trace:
  assumes ce: "\<And>s e. P (ConsoleError s e)" and ds: "\<And>c. P (DomSet ''#gold-prices-grid'' ''innerHTML'' c)"
  shows "emits P (sent (get_request env ''/gold/prices'') w) (snd (fetchGoldPrices env a w))"
  unfolding fetchGoldPrices_def GoldAPI_getAllPrices_eq by (rule fetchGoldPrices_settle_emits [OF ce ds])

lemma fetchCurrencyRates_settle_emits:
  assumes ce: "\<And>s e. P (ConsoleError s e)" and ds: "\<And>c. P (DomSet ''#currency-rates-grid'' ''innerHTML'' c)"
  shows "emits P w1 (snd (fetchCurrencyRates_settle env a (r, w1)))"
proof (cases r)
  case (Inl e)
  then show ?thesis by (simp add: fetchCurrencyRates_settle_def emits_emit ce)
next
  case (Inr response)
  show ?thesis
  proof (cases "response \<noteq> JNull \<and> truthy (opt_member (Some response) ''success'')")
    case False
    with Inr show ?thesis
      by (auto simp: fetchCurrencyRates_settle_def member_Some emits_emit emits_refl ce)
  next
    case True
    let ?a = "a\<lparr>currencyRates := opt_member (Some response) ''data''\<rparr>"
    obtain r2 w2 where rn: "renderCurrencyRates env ?a w1 = (r2, w2)" by (cases "renderCurrencyRates env ?a w1")
    have e: "emits P w1 w2"
      by (rule render_list_emitsD [of P "''#currency-rates-grid''", OF ds rn [unfolded renderCurrencyRates_def]])
    from Inr True rn e show ?thesis
      by (cases r2) (simp_all add: fetchCurrencyRates_settle_def member_Some emits_emit_after ce)
  qed
qed

lemma fetchCurrencyRates_trace:
  assumes ce: "\<And>s e. P (ConsoleError s e)" and ds: "\<And>c. P (DomSet ''#currency-rates-grid'' ''innerHTML'' c)"
  shows "emits P (sent (get_request env ''/currency/rates'') w) (snd (fetchCurrencyRates env a w))"
  unfolding fetchCurrencyRates_def CurrencyAPI_getAllRates_eq by (rule fetchCurrencyRates_settle_emits [OF ce ds])

lemma fetchGoldPrices_settle_fields:
  "currencyRates (fst (fetchGoldPrices_settle env a settled)) = currencyRates a
   \<and> storeInfo (fst (fetchGoldPrices_settle env a settled)) = storeInfo a
   \<and> marketStatus (fst (fetchGoldPrices_settle env a settled)) = marketStatus a
   \<and> updateInterval (fst (fetchGoldPrices_settle env a settled)) = updateInterval a
   \<and> clockInterval (fst (fetchGoldPrices_settle env a settled)) = clockInterval a"
  by (auto simp: fetchGoldPrices_settle_def split: sum.splits prod.splits)

lemma fetchGoldPrices_fields:
  "currencyRates (fst (fetchGoldPrices env a w)) = currencyRates a
   \<and> storeInfo (fst (fetchGoldPrices env a w)) = storeInfo a
   \<and> marketStatus (fst (fetchGoldPrices env a w)) = marketStatus a
   \<and> updateInterval (fst (fetchGoldPrices env a w)) = updateInterval a
   \<and> clockInterval (fst (fetchGoldPrices env a w)) = clockInterval a"
  by (simp add: fetchGoldPrices_def fetchGoldPrices_settle_fields)

lemma fetchCurrencyRates_settle_fields:
  "goldPrices (fst (fetchCurrencyRates_settle env a settled)) = goldPrices a
   \<and> storeInfo (fst (fetchCurrencyRates_settle env a settled)) = storeInfo a
   \<and> marketStatus (fst (fetchCurrencyRates_settle env a settled)) = marketStatus a
   \<and> updateInterval (fst (fetchCurrencyRates_settle env a settled)) = updateInterval a
   \<and> clockInterval (fst (fetchCurrencyRates_settle env a settled)) = clockInterval a"
  by (auto simp: fetchCurrencyRates_settle_def split: sum.splits prod.splits)

lemma fetchCurrencyRates_fields:
  "goldPrices (fst (fetchCurrencyRates env a w)) = goldPrices a
   \<and> storeInfo (fst (fetchCurrencyRates env a w)) = storeInfo a
   \<and> marketStatus (fst (fetchCurrencyRates env a w)) = marketStatus a
   \<and> updateInterval (fst (fetchCurrencyRates env a w)) = updateInterval a
   \<and> clockInterval (fst (fetchCurrencyRates env a w)) = clockInterval a"
  by (simp add: fetchCurrencyRates_def fetchCurrencyRates_settle_fields)

lemma updateMarketStatus_emits:
  assumes "\<And>sel prop c. sel \<noteq> ''#error-container'' \<Longrightarrow> P (DomSet sel prop c)"
  shows "emits P w (snd (updateMarketStatus env a w))"
  using assms
  by (auto simp: updateMarketStatus_def emits_refl emits_emit emits_emit_after split: sum.splits)

lemma emits_sent_weaken:
  "emits P (sent req w) w' \<Longrightarrow> P (Fetched req) \<Longrightarrow> emits P w w'"
  by (auto simp: emits_def sent_def emit_def)

text \<open>
  Claim C4 does not hold of the code. One run of the refresh callback sends exactly two
  requests, for the gold prices and for the currency rates, and leaves the market status
  snapshot as it was: \<^verbatim>\<open>updateMarketStatus\<close> renders the stored snapshot again and
  nothing fetches \<^verbatim>\<open>/settings/market/status\<close>.
\<close>

theorem refresh_never_fetches_market_status:
  "marketStatus (fst (snd (refresh_callback env a w))) = marketStatus a
   \<and> map req_url (requests_of (new_events w (snd (snd (refresh_callback env a w))))) =
       [buildUrl env ''/gold/prices'', buildUrl env ''/currency/rates'']"
proof -
  let ?P = "\<lambda>e. \<not> is_Fetched e"
  let ?g = "get_request env ''/gold/prices''"
  let ?c = "get_request env ''/currency/rates''"
  let ?w1 = "sent ?g w"
  let ?w2 = "sent ?c ?w1"
  let ?prices = "attempt_outcome env ?g (nfetch w)"
  let ?rates = "attempt_outcome env ?c (nfetch ?w1)"
  obtain r w3 where m: "updateMarketStatus env a ?w2 = (r, w3)" by (cases "updateMarketStatus env a ?w2")
  obtain a4 w4 where g: "fetchGoldPrices_settle env a (?prices, w3) = (a4, w4)"
    by (cases "fetchGoldPrices_settle env a (?prices, w3)")
  obtain a5 w5 where c: "fetchCurrencyRates_settle env a4 (?rates, w4) = (a5, w5)"
    by (cases "fetchCurrencyRates_settle env a4 (?rates, w4)")
  have run: "refresh_callback env a w = (r, a5, w5)"
    by (simp add: refresh_callback_def GoldAPI_getAllPrices_eq CurrencyAPI_getAllRates_eq m g c)
  have "marketStatus a4 = marketStatus a"
    using fetchGoldPrices_settle_fields [of env a "(?prices, w3)"] g by simp
  moreover have "marketStatus a5 = marketStatus a4"
    using fetchCurrencyRates_settle_fields [of env a4 "(?rates, w4)"] c by simp
  ultimately have ms: "marketStatus a5 = marketStatus a" by simp
  have e3: "emits ?P ?w2 w3"
    using updateMarketStatus_emits [of ?P ?w2 env a] m by simp
  have e4: "emits ?P w3 w4"
    using fetchGoldPrices_settle_emits [of ?P w3 env a ?prices] g by simp
  have e5: "emits ?P w4 w5"
    using fetchCurrencyRates_settle_emits [of ?P w4 env a4 ?rates] c by simp
  from emits_trans [OF e3 emits_trans [OF e4 e5]]
  obtain es where es: "events w5 = events ?w2 @ es" "list_all ?P es"
    by (auto simp: emits_def)
  have "new_events w w5 = Fetched ?g # Fetched ?c # es"
    by (simp add: new_events_def es(1) sent_def emit_def)
  then have "requests_of (new_events w w5) = [?g, ?c]"
    using es(2) by (simp add: requests_of_none)
  with ms run show ?thesis by (simp add: get_request_def)
qed

text \<open>
  The same at a concrete input: the server would report the market open, the stored
  snapshot says closed, and after a refresh the page still shows it closed.
\<close>

theorem refresh_keeps_stale_market_status:
  "marketStatus (fst (snd (refresh_callback (example_page market_open_server) GoldMarketApp_fields page_load)))
     = Some (JObj [(''isOpen'', JBool False)])
   \<and> filter is_DomSet (new_events page_load
        (snd (snd (refresh_callback (example_page market_open_server) GoldMarketApp_fields page_load)))) =
      [DomSet ''.status-indicator'' ''className'' (Str ''status-indicator closed''),
       DomSet ''.status-text'' ''className'' (Str ''status-text closed''),
       DomSet ''.status-text'' ''textContent'' (MarketLabel False),
       DomSet ''#gold-prices-grid'' ''innerHTML'' (Cards []),
       DomSet ''#currency-rates-grid'' ''innerHTML'' (Cards [])]
   \<and> map req_url (requests_of (new_events page_load
        (snd (snd (refresh_callback (example_page market_open_server) GoldMarketApp_fields page_load))))) =
      [''https://shop.example/api/gold/prices'', ''https://shop.example/api/currency/rates'']"
  by (simp add: refresh_callback_def fetchGoldPrices_settle_def fetchCurrencyRates_settle_def
        updateMarketStatus_def GoldAPI_getAllPrices_def CurrencyAPI_getAllRates_def
        renderGoldPrices_def renderCurrencyRates_def render_list_def market_open_server_def
        GoldMarketApp_fields_def new_events_def client_defs example_defs)

section \<open>Initialization\<close>

text \<open>The definitions a concrete run of the application unfolds.\<close>

lemmas app_defs =
  init_def init_try_def initClock_def updateClock_def setInterval_def fetchInitialData_def
  fetchInitialData_try_def SettingsAPI_getStoreInfo_def SettingsAPI_checkMarketStatus_def
  updateStoreInfo_def when_field_def set_text_def set_replaced_def updateMarketStatus_def fetchGoldPrices_def fetchGoldPrices_settle_def
  fetchCurrencyRates_def fetchCurrencyRates_settle_def GoldAPI_getAllPrices_def CurrencyAPI_getAllRates_def
  renderGoldPrices_def renderCurrencyRates_def render_list_def render_def startAutoUpdate_def
  attachEventListeners_def showError_def GoldMarketApp_fields_def

lemma run_steps_emits:
  assumes "\<And>s w. s \<in> set steps \<Longrightarrow> emits P w (snd (s w))"
  shows "emits P w (snd (run_steps steps w))"
  using assms
proof (induction steps arbitrary: w)
  case Nil
  show ?case by (simp add: emits_refl)
next
  case (Cons s steps)
  obtain r w1 where s: "s w = (r, w1)" by (cases "s w")
  have e1: "emits P w w1" using Cons.prems [of s w] s by simp
  show ?case
  proof (cases r)
    case (Inl e)
    with s e1 show ?thesis by simp
  next
    case (Inr u)
    have "emits P w1 (snd (run_steps steps w1))" using Cons.prems by (intro Cons.IH) simp
    with e1 have "emits P w (snd (run_steps steps w1))" by (rule emits_trans)
    with s Inr show ?thesis by simp
  qed
qed

lemma run_steps_nfetch:
  assumes "\<And>s w. s \<in> set steps \<Longrightarrow> nfetch (snd (s w)) = nfetch w"
  shows "nfetch (snd (run_steps steps w)) = nfetch w"
  using assms
proof (induction steps arbitrary: w)
  case Nil
  show ?case by simp
next
  case (Cons s steps)
  obtain r w1 where s: "s w = (r, w1)" by (cases "s w")
  have n1: "nfetch w1 = nfetch w" using Cons.prems [of s w] s by simp
  show ?case
  proof (cases r)
    case (Inl e)
    with s n1 show ?thesis by simp
  next
    case (Inr u)
    have "nfetch (snd (run_steps steps w1)) = nfetch w1" using Cons.prems by (intro Cons.IH) simp
    with s Inr n1 show ?thesis by simp
  qed
qed

lemma when_field_emits:
  assumes "\<And>v w. emits P w (snd (act v w))"
  shows "emits P w (snd (when_field env sel obj k act w))"
  using assms by (auto simp: when_field_def emits_refl split: sum.splits option.splits)

lemma when_field_nfetch:
  assumes "\<And>v w. nfetch (snd (act v w)) = nfetch w"
  shows "nfetch (snd (when_field env sel obj k act w)) = nfetch w"
  using assms by (auto simp: when_field_def split: sum.splits option.splits)

lemma set_text_emits:
  assumes "\<And>c. P (DomSet sel prop c)"
  shows "emits P w (snd (set_text sel prop prefix v w))"
  using assms by (simp add: set_text_def emits_refl emits_emit split: sum.splits)

lemma set_replaced_emits:
  assumes "\<And>c. P (DomSet sel ''href'' c)"
  shows "emits P w (snd (set_replaced sel field prefix f v w))"
  using assms by (simp add: set_replaced_def emits_refl emits_emit split: json.splits)

lemma set_text_nfetch: "nfetch (snd (set_text sel prop prefix v w)) = nfetch w"
  by (simp add: set_text_def emit_def split: sum.splits)

lemma set_replaced_nfetch: "nfetch (snd (set_replaced sel field prefix f v w)) = nfetch w"
  by (simp add: set_replaced_def emit_def split: json.splits)

lemma updateStoreInfo_emits:
  assumes dom: "\<And>sel prop c. sel \<noteq> ''#error-container'' \<Longrightarrow> P (DomSet sel prop c)"
  shows "emits P w (snd (updateStoreInfo env a w))"
  unfolding updateStoreInfo_def
proof (rule run_steps_emits)
  fix s w
  have phone: "emits P w' (snd (run_steps [set_text ''#footer-phone'' ''textContent'' [] v,
                          set_text ''#footer-phone'' ''href'' ''tel:'' v] w'))" for v w'
    by (rule run_steps_emits) (auto intro!: set_text_emits dom)
  assume "s \<in> set
       [when_field env ''.logo-text'' (storeInfo a) ''name''
          (set_text ''.logo-text'' ''textContent'' []),
        when_field env ''#footer-store-name'' (storeInfo a) ''name''
          (set_text ''#footer-store-name'' ''textContent'' []),
        when_field env ''#footer-address'' (storeInfo a) ''address''
          (set_text ''#footer-address'' ''textContent'' []),
        when_field env ''#footer-phone'' (storeInfo a) ''phone''
          (\<lambda>v. run_steps [set_text ''#footer-phone'' ''textContent'' [] v,
                          set_text ''#footer-phone'' ''href'' ''tel:'' v]),
        when_field env ''#footer-whatsapp'' (storeInfo a) ''whatsapp''
          (set_replaced ''#footer-whatsapp'' ''whatsapp'' ''https://wa.me/'' strip_non_digits),
        when_field env ''#footer-instagram'' (storeInfo a) ''instagram''
          (set_replaced ''#footer-instagram'' ''instagram'' ''https://instagram.com/'' remove_first_at),
        when_field env ''#footer-facebook'' (storeInfo a) ''facebook''
          (set_text ''#footer-facebook'' ''href'' ''https://facebook.com/'')]"
  then show "emits P w (snd (s w))"
    using phone
    by (auto intro!: when_field_emits set_text_emits set_replaced_emits dom)
qed

lemma updateStoreInfo_nfetch: "nfetch (snd (updateStoreInfo env a w)) = nfetch w"
  unfolding updateStoreInfo_def
proof (rule run_steps_nfetch)
  fix s w
  have phone: "nfetch (snd (run_steps [set_text ''#footer-phone'' ''textContent'' [] v,
                          set_text ''#footer-phone'' ''href'' ''tel:'' v] w')) = nfetch w'" for v w'
    by (rule run_steps_nfetch) (auto simp: set_text_nfetch)
  assume "s \<in> set
       [when_field env ''.logo-text'' (storeInfo a) ''name''
          (set_text ''.logo-text'' ''textContent'' []),
        when_field env ''#footer-store-name'' (storeInfo a) ''name''
          (set_text ''#footer-store-name'' ''textContent'' []),
        when_field env ''#footer-address'' (storeInfo a) ''address''
          (set_text ''#footer-address'' ''textContent'' []),
        when_field env ''#footer-phone'' (storeInfo a) ''phone''
          (\<lambda>v. run_steps [set_text ''#footer-phone'' ''textContent'' [] v,
                          set_text ''#footer-phone'' ''href'' ''tel:'' v]),
        when_field env ''#footer-whatsapp'' (storeInfo a) ''whatsapp''
          (set_replaced ''#footer-whatsapp'' ''whatsapp'' ''https://wa.me/'' strip_non_digits),
        when_field env ''#footer-instagram'' (storeInfo a) ''instagram''
          (set_replaced ''#footer-instagram'' ''instagram'' ''https://instagram.com/'' remove_first_at),
        when_field env ''#footer-facebook'' (storeInfo a) ''facebook''
          (set_text ''#footer-facebook'' ''href'' ''https://facebook.com/'')]"
  then show "nfetch (snd (s w)) = nfetch w"
    using phone
    by (auto intro!: when_field_nfetch simp: set_text_nfetch set_replaced_nfetch)
qed

lemma updateMarketStatus_nfetch: "nfetch (snd (updateMarketStatus env a w)) = nfetch w"
  by (auto simp: updateMarketStatus_def emit_def split: sum.splits)

lemma fetchInitialData_try_stages:
  "fetchInitialData_try env a w =
     (case fetch_then_update (SettingsAPI_getStoreInfo env) (\<lambda>d a. a\<lparr>storeInfo := d\<rparr>)
             (updateStoreInfo env) a w of
        (Inl e, a2, w2) \<Rightarrow> (Inl e, a2, w2)
      | (Inr u, a2, w2) \<Rightarrow>
     (case fetch_then_update (SettingsAPI_checkMarketStatus env) (\<lambda>d a. a\<lparr>marketStatus := d\<rparr>)
             (updateMarketStatus env) a2 w2 of
        (Inl e, a4, w4) \<Rightarrow> (Inl e, a4, w4)
      | (Inr u, a4, w4) \<Rightarrow>
     (case fetchGoldPrices env a4 w4 of
        (a5, w5) \<Rightarrow>
     (case fetchCurrencyRates env a5 w5 of
        (a6, w6) \<Rightarrow> (Inr (), a6, w6)))))"
  by (simp add: fetchInitialData_try_def fetch_then_update_def split: prod.splits sum.splits)

lemma stage_emits:
  assumes call: "\<And>w. call w = (attempt_outcome env req (nfetch w), sent req w)"
    and upd: "\<And>a w. emits P w (snd (update a w))"
    and req: "P (Fetched req)"
  shows "emits P w (snd (snd (fetch_then_update call store update a w)))"
proof -
  have s: "emits P w (sent req w)" using req by (rule emits_sent)
  have u: "emits P w (snd (update a' (sent req w)))" for a'
    using s upd by (rule emits_trans)
  show ?thesis
    using s u
    by (auto simp: fetch_then_update_def call member_Some split: sum.splits prod.splits)
       (metis snd_conv)
qed

lemma stage_nfetch:
  assumes call: "\<And>w. call w = (attempt_outcome env req (nfetch w), sent req w)"
    and upd: "\<And>a w. nfetch (snd (update a w)) = nfetch w"
  shows "nfetch (snd (snd (fetch_then_update call store update a w))) = Suc (nfetch w)"
proof -
  have s: "nfetch (sent req w) = Suc (nfetch w)" by (simp add: sent_def emit_def)
  have u: "nfetch (snd (update a' (sent req w))) = Suc (nfetch w)" for a'
    using s upd by simp
  show ?thesis
    using s u
    by (auto simp: fetch_then_update_def call member_Some split: sum.splits prod.splits)
       (metis snd_conv)
qed

lemma stage_raises:
  assumes call: "\<And>w. call w = (attempt_outcome env req (nfetch w), sent req w)"
    and "attempt_outcome env req (nfetch w) = Inl e"
  shows "fst (fetch_then_update call store update a w) = Inl e"
  using assms(2) by (simp add: fetch_then_update_def call)

lemma stage_updateInterval:
  assumes "\<And>d a. updateInterval (store d a) = updateInterval a"
  shows "updateInterval (fst (snd (fetch_then_update call store update a w))) = updateInterval a"
  using assms
  by (auto simp: fetch_then_update_def split: sum.splits prod.splits)

lemma SettingsAPI_getStoreInfo_eq:
  "SettingsAPI_getStoreInfo env w =
     (attempt_outcome env (get_request env ''/settings/store'') (nfetch w),
      sent (get_request env ''/settings/store'') w)"
  by (simp add: SettingsAPI_getStoreInfo_def API_get_no_options)

lemma SettingsAPI_checkMarketStatus_eq:
  "SettingsAPI_checkMarketStatus env w =
     (attempt_outcome env (get_request env ''/settings/market/status'') (nfetch w),
      sent (get_request env ''/settings/market/status'') w)"
  by (simp add: SettingsAPI_checkMarketStatus_def API_get_no_options)

lemma updateStoreInfo_before_ready: "emits before_ready w (snd (updateStoreInfo env a w))"
  by (rule updateStoreInfo_emits) simp

lemma updateMarketStatus_before_ready: "emits before_ready w (snd (updateMarketStatus env a w))"
  by (rule updateMarketStatus_emits) simp

lemma fetchGoldPrices_before_ready: "emits before_ready w (snd (fetchGoldPrices env a w))"
  by (rule emits_sent_weaken [OF fetchGoldPrices_trace]) simp_all

lemma fetchCurrencyRates_before_ready: "emits before_ready w (snd (fetchCurrencyRates env a w))"
  by (rule emits_sent_weaken [OF fetchCurrencyRates_trace]) simp_all

text \<open>What \<^verbatim>\<open>fetchInitialData\<close> does to the world and to the refresh timer, and when it raises.\<close>

lemma fetchInitialData_try_facts:
  "emits before_ready w (snd (snd (fetchInitialData_try env a w)))
   \<and> updateInterval (fst (snd (fetchInitialData_try env a w))) = updateInterval a"
proof -
  let ?S = "fetch_then_update (SettingsAPI_getStoreInfo env) (\<lambda>d a. a\<lparr>storeInfo := d\<rparr>) (updateStoreInfo env)"
  let ?M = "fetch_then_update (SettingsAPI_checkMarketStatus env) (\<lambda>d a. a\<lparr>marketStatus := d\<rparr>) (updateMarketStatus env)"
  obtain r2 a2 w2 where s: "?S a w = (r2, a2, w2)" by (cases "?S a w")
  obtain r4 a4 w4 where m: "?M a2 w2 = (r4, a4, w4)" by (cases "?M a2 w2")
  obtain a5 w5 where g: "fetchGoldPrices env a4 w4 = (a5, w5)" by (cases "fetchGoldPrices env a4 w4")
  obtain a6 w6 where c: "fetchCurrencyRates env a5 w5 = (a6, w6)" by (cases "fetchCurrencyRates env a5 w5")
  have e2: "emits before_ready w w2"
    using stage_emits [where call = "SettingsAPI_getStoreInfo env" and update = "updateStoreInfo env"
              and P = before_ready and w = w and a = a and store = "\<lambda>d a. a\<lparr>storeInfo := d\<rparr>",
            OF SettingsAPI_getStoreInfo_eq updateStoreInfo_before_ready] s
    by simp
  have e4: "emits before_ready w2 w4"
    using stage_emits [where call = "SettingsAPI_checkMarketStatus env" and update = "updateMarketStatus env"
              and P = before_ready and w = w2 and a = a2 and store = "\<lambda>d a. a\<lparr>marketStatus := d\<rparr>",
            OF SettingsAPI_checkMarketStatus_eq updateMarketStatus_before_ready] m
    by simp
  have e5: "emits before_ready w4 w5" using fetchGoldPrices_before_ready [of w4 env a4] g by simp
  have e6: "emits before_ready w5 w6" using fetchCurrencyRates_before_ready [of w5 env a5] c by simp
  have u2: "updateInterval a2 = updateInterval a"
    using stage_updateInterval [where store = "\<lambda>d a. a\<lparr>storeInfo := d\<rparr>" and call = "SettingsAPI_getStoreInfo env"
              and update = "updateStoreInfo env" and a = a and w = w] s
    by simp
  have u4: "updateInterval a4 = updateInterval a2"
    using stage_updateInterval [where store = "\<lambda>d a. a\<lparr>marketStatus := d\<rparr>" and call = "SettingsAPI_checkMarketStatus env"
              and update = "updateMarketStatus env" and a = a2 and w = w2] m
    by simp
  have u5: "updateInterval a5 = updateInterval a4" using fetchGoldPrices_fields [of env a4 w4] g by simp
  have u6: "updateInterval a6 = updateInterval a5" using fetchCurrencyRates_fields [of env a5 w5] c by simp
  have e46: "emits before_ready w w4" using e2 e4 by (rule emits_trans)
  have e66: "emits before_ready w w6" using e46 emits_trans [OF e5 e6] by (rule emits_trans)
  show ?thesis
    using s m g c e2 e46 e66 u2 u4 u5 u6
    by (cases r2; cases r4) (simp_all add: fetchInitialData_try_stages)
qed

lemma fetchInitialData_try_raises:
  assumes "(\<exists>e. fst (SettingsAPI_getStoreInfo env w) = Inl e)
         \<or> (\<exists>e. fst (SettingsAPI_checkMarketStatus env (w\<lparr>nfetch := Suc (nfetch w)\<rparr>)) = Inl e)"
  shows "\<exists>e. fst (fetchInitialData_try env a w) = Inl e"
proof -
  let ?S = "fetch_then_update (SettingsAPI_getStoreInfo env) (\<lambda>d a. a\<lparr>storeInfo := d\<rparr>) (updateStoreInfo env)"
  let ?M = "fetch_then_update (SettingsAPI_checkMarketStatus env) (\<lambda>d a. a\<lparr>marketStatus := d\<rparr>) (updateMarketStatus env)"
  obtain r2 a2 w2 where s: "?S a w = (r2, a2, w2)" by (cases "?S a w")
  show ?thesis
  proof (cases r2)
    case (Inl e)
    with s show ?thesis by (simp add: fetchInitialData_try_stages)
  next
    case (Inr u)
    have "\<not> (\<exists>e. fst (SettingsAPI_getStoreInfo env w) = Inl e)"
    proof
      assume "\<exists>e. fst (SettingsAPI_getStoreInfo env w) = Inl e"
      then obtain e where "attempt_outcome env (get_request env ''/settings/store'') (nfetch w) = Inl e"
        by (auto simp: SettingsAPI_getStoreInfo_eq)
      from stage_raises [where call = "SettingsAPI_getStoreInfo env", OF SettingsAPI_getStoreInfo_eq this]
      have "fst (?S a w) = Inl e" .
      with s Inr show False by simp
    qed
    with assms obtain e where
      "fst (SettingsAPI_checkMarketStatus env (w\<lparr>nfetch := Suc (nfetch w)\<rparr>)) = Inl e" by blast
    then have o: "attempt_outcome env (get_request env ''/settings/market/status'') (Suc (nfetch w)) = Inl e"
      by (simp add: SettingsAPI_checkMarketStatus_eq)
    have "nfetch w2 = Suc (nfetch w)"
      using stage_nfetch [where call = "SettingsAPI_getStoreInfo env" and update = "updateStoreInfo env"
                and w = w and a = a and store = "\<lambda>d a. a\<lparr>storeInfo := d\<rparr>",
              OF SettingsAPI_getStoreInfo_eq updateStoreInfo_nfetch] s
      by simp
    with o have "attempt_outcome env (get_request env ''/settings/market/status'') (nfetch w2) = Inl e"
      by simp
    from stage_raises [where call = "SettingsAPI_checkMarketStatus env", OF SettingsAPI_checkMarketStatus_eq this]
    have "fst (?M a2 w2) = Inl e" .
    with s Inr show ?thesis
      by (auto simp: fetchInitialData_try_stages split: prod.splits sum.splits)
  qed
qed

lemma fetchInitialData_try_raises_early:
  assumes "fst (fetchInitialData_try env a w) = Inl e"
  shows "nfetch (snd (snd (fetchInitialData_try env a w))) \<le> nfetch w + 2"
proof -
  let ?S = "fetch_then_update (SettingsAPI_getStoreInfo env) (\<lambda>d a. a\<lparr>storeInfo := d\<rparr>) (updateStoreInfo env)"
  let ?M = "fetch_then_update (SettingsAPI_checkMarketStatus env) (\<lambda>d a. a\<lparr>marketStatus := d\<rparr>) (updateMarketStatus env)"
  obtain r2 a2 w2 where s: "?S a w = (r2, a2, w2)" by (cases "?S a w")
  obtain r4 a4 w4 where m: "?M a2 w2 = (r4, a4, w4)" by (cases "?M a2 w2")
  have n2: "nfetch w2 = Suc (nfetch w)"
    using stage_nfetch [where call = "SettingsAPI_getStoreInfo env" and update = "updateStoreInfo env"
              and w = w and a = a and store = "\<lambda>d a. a\<lparr>storeInfo := d\<rparr>",
            OF SettingsAPI_getStoreInfo_eq updateStoreInfo_nfetch] s
    by simp
  have n4: "nfetch w4 = Suc (nfetch w2)"
    using stage_nfetch [where call = "SettingsAPI_checkMarketStatus env" and update = "updateMarketStatus env"
              and w = w2 and a = a2 and store = "\<lambda>d a. a\<lparr>marketStatus := d\<rparr>",
            OF SettingsAPI_checkMarketStatus_eq updateMarketStatus_nfetch] m
    by simp
  show ?thesis
    using assms s m n2 n4
    by (cases r2; cases r4) (auto simp: fetchInitialData_try_stages split: prod.splits)
qed

lemma initClock_facts:
  "emits before_ready w (snd (initClock env a w))
   \<and> nfetch (snd (initClock env a w)) = nfetch w
   \<and> updateInterval (fst (initClock env a w)) = updateInterval a"
  by (simp add: initClock_def setInterval_def updateClock_def emits_def emit_def)

lemma fetchInitialData_facts:
  "emits before_ready w (snd (snd (fetchInitialData env a w)))
   \<and> updateInterval (fst (snd (fetchInitialData env a w))) = updateInterval a"
proof -
  obtain r a1 w1 where t: "fetchInitialData_try env a w = (r, a1, w1)"
    by (cases "fetchInitialData_try env a w")
  have e: "emits before_ready w w1" and u: "updateInterval a1 = updateInterval a"
    using fetchInitialData_try_facts [of w env a] t by simp_all
  show ?thesis
  proof (cases r)
    case (Inl err)
    have "emits before_ready w (emit (ConsoleError ''Error fetching initial data:'' err) w1)"
      using e by (rule emits_emit_after) simp
    with Inl t u show ?thesis by (simp add: fetchInitialData_def)
  next
    case (Inr x)
    with t e u show ?thesis by (simp add: fetchInitialData_def)
  qed
qed

lemma fetchInitialData_raises_early:
  assumes "fst (fetchInitialData env a w) = Inl e"
  shows "nfetch (snd (snd (fetchInitialData env a w))) \<le> nfetch w + 2"
proof -
  from assms have "fst (fetchInitialData_try env a w) = Inl e"
    by (auto simp: fetchInitialData_def split: prod.splits sum.splits)
  from fetchInitialData_try_raises_early [OF this] show ?thesis
    by (auto simp: fetchInitialData_def emit_def split: prod.splits sum.splits)
qed

lemma render_before_ready: "emits before_ready w (snd (render env a w))"
  unfolding render_def
  by (rule run_steps_emits)
     (auto simp: renderGoldPrices_def renderCurrencyRates_def intro!: render_list_emits)

text \<open>
  Claim C1, as amended. If the store-info request or the market-status request (the
  first and the second request of the initialization) raises, \<^verbatim>\<open>init\<close> aborts: up to
  the abort it has only sent requests, logged, written regions other than the banner and
  started the clock; it then logs the error and \<^verbatim>\<open>showError\<close> writes the banner once
  (when the page has an error container); the refresh timer is not registered and no
  listener is attached. A gold-price or currency-rate fetch that fails does not abort:
  whatever the page and the server, \<^verbatim>\<open>fetchInitialData\<close> raises only while at most
  two requests have been sent, that is before the gold-price request; and whenever
  \<^verbatim>\<open>fetchInitialData\<close> and the \<^verbatim>\<open>render\<close> after it return normally, \<^verbatim>\<open>init\<close>
  reaches Ready: no banner is written, the refresh timer is registered, the listeners are
  attached and the success is logged.
\<close>

theorem init_aborts_on_settings_failure:
  "((\<exists>e. fst (SettingsAPI_getStoreInfo env w) = Inl e)
      \<or> (\<exists>e. fst (SettingsAPI_checkMarketStatus env (w\<lparr>nfetch := Suc (nfetch w)\<rparr>)) = Inl e) \<longrightarrow>
     updateInterval (fst (init env a w)) = updateInterval a
     \<and> (\<exists>es e. new_events w (snd (init env a w)) =
                 es @ ConsoleError ''App initialization error:'' e #
                   (if element env ''#error-container''
                    then [DomSet ''#error-container'' ''innerHTML''
                            (ErrorAlert ''Failed to initialize application'')]
                    else [])
               \<and> list_all before_ready es))
   \<and> (\<forall>e. fst (fetchInitialData env a w) = Inl e \<longrightarrow>
          nfetch (snd (snd (fetchInitialData env a w))) \<le> nfetch w + 2)
   \<and> (\<forall>a1 w1 a2 w2 w3.
          initClock env a (emit (ConsoleLog ''Initializing Gold Market App...'') w) = (a1, w1)
          \<and> fetchInitialData env a1 w1 = (Inr (), a2, w2)
          \<and> render env a2 w2 = (Inr (), w3) \<longrightarrow>
          (\<exists>h es. updateInterval (fst (init env a w)) = Some (Handle h)
             \<and> new_events w (snd (init env a w)) =
                 es @ SetInterval h Refresh 30000 #
                   (if element env ''#admin-btn'' then [AddListener ''#admin-btn'' ''click''] else []) @
                   [AddListener ''document'' ''mouseover'', AddListener ''document'' ''mouseout'',
                    ConsoleLog ''App initialized successfully'']
             \<and> list_all before_ready es))"
proof (intro conjI allI impI)
  let ?w0 = "emit (ConsoleLog ''Initializing Gold Market App...'') w"
  assume fails: "(\<exists>e. fst (SettingsAPI_getStoreInfo env w) = Inl e)
      \<or> (\<exists>e. fst (SettingsAPI_checkMarketStatus env (w\<lparr>nfetch := Suc (nfetch w)\<rparr>)) = Inl e)"
  obtain a1 w1 where ic: "initClock env a ?w0 = (a1, w1)" by (cases "initClock env a ?w0")
  have "emits before_ready w ?w0" by (simp add: emits_emit)
  moreover have "emits before_ready ?w0 w1" using initClock_facts [of ?w0 env a] ic by simp
  ultimately have e1: "emits before_ready w w1" by (rule emits_trans)
  have n1: "nfetch w1 = nfetch w" using initClock_facts [of ?w0 env a] ic by (simp add: emit_def)
  have u1: "updateInterval a1 = updateInterval a" using initClock_facts [of ?w0 env a] ic by simp
  have "(\<exists>e. fst (SettingsAPI_getStoreInfo env w1) = Inl e)
     \<or> (\<exists>e. fst (SettingsAPI_checkMarketStatus env (w1\<lparr>nfetch := Suc (nfetch w1)\<rparr>)) = Inl e)"
    using fails n1 by (simp add: SettingsAPI_getStoreInfo_eq SettingsAPI_checkMarketStatus_eq)
  then obtain e where "fst (fetchInitialData_try env a1 w1) = Inl e"
    using fetchInitialData_try_raises by blast
  then have "fst (fetchInitialData env a1 w1) = Inl e"
    by (auto simp: fetchInitialData_def split: prod.splits sum.splits)
  then obtain a2 w2 where fd: "fetchInitialData env a1 w1 = (Inl e, a2, w2)"
    by (cases "fetchInitialData env a1 w1") auto
  have e2: "emits before_ready w1 w2" and u2: "updateInterval a2 = updateInterval a1"
    using fetchInitialData_facts [of w1 env a1] fd by simp_all
  have e3: "emits before_ready w w2" using e1 e2 by (rule emits_trans)
  have it: "init_try env a w = (Inl e, a2, w2)"
    by (simp add: init_try_def ic fd)
  have run: "init env a w =
      (a2, showError env ''Failed to initialize application''
             (emit (ConsoleError ''App initialization error:'' e) w2))"
    by (simp add: init_def it)
  from e3 obtain es where es: "events w2 = events w @ es" "list_all before_ready es"
    by (auto simp: emits_def)
  have "new_events w (snd (init env a w)) =
          es @ ConsoleError ''App initialization error:'' e #
            (if element env ''#error-container''
             then [DomSet ''#error-container'' ''innerHTML'' (ErrorAlert ''Failed to initialize application'')]
             else [])"
    using es(1) by (simp add: run showError_def new_events_def emit_def)
  with es(2)
  show "\<exists>es e. new_events w (snd (init env a w)) =
                 es @ ConsoleError ''App initialization error:'' e #
                   (if element env ''#error-container''
                    then [DomSet ''#error-container'' ''innerHTML''
                            (ErrorAlert ''Failed to initialize application'')]
                    else [])
               \<and> list_all before_ready es"
    by blast
  from run u1 u2 show "updateInterval (fst (init env a w)) = updateInterval a"
    by simp
next
  fix e
  assume "fst (fetchInitialData env a w) = Inl e"
  then show "nfetch (snd (snd (fetchInitialData env a w))) \<le> nfetch w + 2"
    by (rule fetchInitialData_raises_early)
next
  fix a1 w1 a2 w2 w3
  let ?w0 = "emit (ConsoleLog ''Initializing Gold Market App...'') w"
  assume ok: "initClock env a ?w0 = (a1, w1)
          \<and> fetchInitialData env a1 w1 = (Inr (), a2, w2)
          \<and> render env a2 w2 = (Inr (), w3)"
  then have ic: "initClock env a ?w0 = (a1, w1)"
    and fd: "fetchInitialData env a1 w1 = (Inr (), a2, w2)"
    and rn: "render env a2 w2 = (Inr (), w3)" by simp_all
  have "emits before_ready w ?w0" by (simp add: emits_emit)
  moreover have "emits before_ready ?w0 w1" using initClock_facts [of ?w0 env a] ic by simp
  moreover have "emits before_ready w1 w2" using fetchInitialData_facts [of w1 env a1] fd by simp
  moreover have "emits before_ready w2 w3" using render_before_ready [of w2 env a2] rn by simp
  ultimately have "emits before_ready w w3" by (blast intro: emits_trans)
  then obtain es where es: "events w3 = events w @ es" "list_all before_ready es"
    by (auto simp: emits_def)
  let ?h = "next_timer w3"
  have run: "init env a w =
      (a2\<lparr>updateInterval := Some (Handle ?h)\<rparr>,
       emit (ConsoleLog ''App initialized successfully'')
         (attachEventListeners env
            (emit (SetInterval ?h Refresh 30000) (w3\<lparr>next_timer := Suc ?h\<rparr>))))"
    by (simp add: init_def init_try_def ic fd rn startAutoUpdate_def setInterval_def)
  have "new_events w (snd (init env a w)) =
          es @ SetInterval ?h Refresh 30000 #
            (if element env ''#admin-btn'' then [AddListener ''#admin-btn'' ''click''] else []) @
            [AddListener ''document'' ''mouseover'', AddListener ''document'' ''mouseout'',
             ConsoleLog ''App initialized successfully'']"
    using es(1) by (simp add: run attachEventListeners_def new_events_def emit_def)
  with es(2) run
  show "\<exists>h es. updateInterval (fst (init env a w)) = Some (Handle h)
             \<and> new_events w (snd (init env a w)) =
                 es @ SetInterval h Refresh 30000 #
                   (if element env ''#admin-btn'' then [AddListener ''#admin-btn'' ''click''] else []) @
                   [AddListener ''document'' ''mouseover'', AddListener ''document'' ''mouseout'',
                    ConsoleLog ''App initialized successfully'']
             \<and> list_all before_ready es"
    by (intro exI [of _ ?h] exI [of _ es]) simp
qed

text \<open>
  At two pages. Where the server answers the market-status request with 503, \<^verbatim>\<open>init\<close>
  aborts with the banner, after two requests. Where it answers the gold-price request
  with 503 and the others successfully, \<^verbatim>\<open>fetchInitialData\<close> and \<^verbatim>\<open>render\<close> return
  normally and \<^verbatim>\<open>init\<close> reaches Ready.
\<close>

theorem init_aborts_on_settings_failure_witness:
  "updateInterval (fst (init (example_page (shop_server ''/settings/market/status'')) GoldMarketApp_fields page_load)) = None
   \<and> (\<exists>es e. new_events page_load
                 (snd (init (example_page (shop_server ''/settings/market/status'')) GoldMarketApp_fields page_load)) =
               es @ [ConsoleError ''App initialization error:'' e,
                     DomSet ''#error-container'' ''innerHTML'' (ErrorAlert ''Failed to initialize application'')]
             \<and> list_all before_ready es)
   \<and> nfetch (snd (snd (fetchInitialData (example_page (shop_server ''/settings/market/status''))
                          GoldMarketApp_fields page_load))) \<le> 2
   \<and> (\<exists>h es. updateInterval (fst (init (example_page (shop_server ''/gold/prices'')) GoldMarketApp_fields page_load))
                = Some (Handle h)
             \<and> new_events page_load
                 (snd (init (example_page (shop_server ''/gold/prices'')) GoldMarketApp_fields page_load)) =
               es @ [SetInterval h Refresh 30000, AddListener ''#admin-btn'' ''click'',
                     AddListener ''document'' ''mouseover'', AddListener ''document'' ''mouseout'',
                     ConsoleLog ''App initialized successfully'']
             \<and> list_all before_ready es)"
proof -
  let ?env = "example_page (shop_server ''/settings/market/status'')"
  let ?e = "\<lparr>err_name = ''Error'', err_message = ''HTTP 503'', err_status = Some 503,
             err_code = Some (JStr ''UNKNOWN_ERROR''), err_data = Some JNull\<rparr>"
  have down: "fst (SettingsAPI_checkMarketStatus ?env (page_load\<lparr>nfetch := Suc (nfetch page_load)\<rparr>)) = Inl ?e"
    by (simp add: SettingsAPI_checkMarketStatus_def shop_server_def client_defs example_defs decimal.simps)
  have raised: "fst (fetchInitialData ?env GoldMarketApp_fields page_load) = Inl ?e"
    by (simp add: app_defs shop_server_def client_defs example_defs decimal.simps)
  have el: "element ?env ''#error-container''" by (simp add: example_page_def)
  have u: "updateInterval GoldMarketApp_fields = None" by (simp add: GoldMarketApp_fields_def)
  have n: "nfetch page_load = 0" by (simp add: page_load_def)
  note t = init_aborts_on_settings_failure [of ?env page_load GoldMarketApp_fields]
  from t down have a: "updateInterval (fst (init ?env GoldMarketApp_fields page_load)) = updateInterval GoldMarketApp_fields"
    by blast
  from t down have "\<exists>es e. new_events page_load (snd (init ?env GoldMarketApp_fields page_load)) =
               es @ ConsoleError ''App initialization error:'' e #
                 (if element ?env ''#error-container''
                  then [DomSet ''#error-container'' ''innerHTML'' (ErrorAlert ''Failed to initialize application'')]
                  else [])
             \<and> list_all before_ready es"
    by blast
  with el have b: "\<exists>es e. new_events page_load (snd (init ?env GoldMarketApp_fields page_load)) =
               es @ [ConsoleError ''App initialization error:'' e,
                     DomSet ''#error-container'' ''innerHTML'' (ErrorAlert ''Failed to initialize application'')]
             \<and> list_all before_ready es"
    by simp
  from t raised have c: "nfetch (snd (snd (fetchInitialData ?env GoldMarketApp_fields page_load))) \<le> nfetch page_load + 2"
    by blast
  let ?env' = "example_page (shop_server ''/gold/prices'')"
  let ?ic = "initClock ?env' GoldMarketApp_fields (emit (ConsoleLog ''Initializing Gold Market App...'') page_load)"
  let ?fd = "fetchInitialData ?env' (fst ?ic) (snd ?ic)"
  let ?rn = "render ?env' (fst (snd ?fd)) (snd (snd ?fd))"
  have f1: "fst ?fd = Inr ()"
    by (simp add: app_defs shop_server_def client_defs example_defs decimal.simps)
  have f2: "fst ?rn = Inr ()"
    by (simp add: app_defs shop_server_def client_defs example_defs decimal.simps)
  have ready_hyp: "?ic = (fst ?ic, snd ?ic)
      \<and> fetchInitialData ?env' (fst ?ic) (snd ?ic) = (Inr (), fst (snd ?fd), snd (snd ?fd))
      \<and> render ?env' (fst (snd ?fd)) (snd (snd ?fd)) = (Inr (), snd ?rn)"
    using f1 f2 by (simp add: prod_eq_iff)
  have el': "element ?env' ''#admin-btn''" by (simp add: example_page_def)
  note t' = init_aborts_on_settings_failure [of ?env' page_load GoldMarketApp_fields]
  from t' ready_hyp
  have "\<exists>h es. updateInterval (fst (init ?env' GoldMarketApp_fields page_load)) = Some (Handle h)
             \<and> new_events page_load (snd (init ?env' GoldMarketApp_fields page_load)) =
                 es @ SetInterval h Refresh 30000 #
                   (if element ?env' ''#admin-btn'' then [AddListener ''#admin-btn'' ''click''] else []) @
                   [AddListener ''document'' ''mouseover'', AddListener ''document'' ''mouseout'',
                    ConsoleLog ''App initialized successfully'']
             \<and> list_all before_ready es"
    by blast
  with el' have d: "\<exists>h es. updateInterval (fst (init ?env' GoldMarketApp_fields page_load)) = Some (Handle h)
             \<and> new_events page_load (snd (init ?env' GoldMarketApp_fields page_load)) =
               es @ [SetInterval h Refresh 30000, AddListener ''#admin-btn'' ''click'',
                     AddListener ''document'' ''mouseover'', AddListener ''document'' ''mouseout'',
                     ConsoleLog ''App initialized successfully'']
             \<and> list_all before_ready es"
    by simp
  from a b c d u n show ?thesis by simp
qed

text \<open>
  Counterexample to claim C1 as stated. On a page whose server answers the gold-price request with
  503 and every other request successfully, the gold fetch of the initialization fails:
  it is logged by \<^verbatim>\<open>fetchGoldPrices\<close>, no banner is written, and the initialization
  goes on to register the refresh timer and the listeners.
\<close>

theorem init_gold_failure_counterexample:
  "fst (GoldAPI_getAllPrices (example_page (shop_server ''/gold/prices'')) (page_load\<lparr>nfetch := 2\<rparr>)) =
     Inl \<lparr>err_name = ''Error'', err_message = ''HTTP 503'', err_status = Some 503,
          err_code = Some (JStr ''UNKNOWN_ERROR''), err_data = Some JNull\<rparr>
   \<and> updateInterval (fst (init (example_page (shop_server ''/gold/prices'')) GoldMarketApp_fields page_load)) = Some (Handle 2)
   \<and> filter (\<lambda>e. \<not> before_ready e) (events (snd (init (example_page (shop_server ''/gold/prices'')) GoldMarketApp_fields page_load))) =
       [SetInterval 2 Refresh 30000, AddListener ''#admin-btn'' ''click'',
        AddListener ''document'' ''mouseover'', AddListener ''document'' ''mouseout'',
        ConsoleLog ''App initialized successfully'']
   \<and> ConsoleError ''Error fetching gold prices:''
         \<lparr>err_name = ''Error'', err_message = ''HTTP 503'', err_status = Some 503,
          err_code = Some (JStr ''UNKNOWN_ERROR''), err_data = Some JNull\<rparr>
       \<in> set (events (snd (init (example_page (shop_server ''/gold/prices'')) GoldMarketApp_fields page_load)))
   \<and> DomSet ''#error-container'' ''innerHTML'' (ErrorAlert ''Failed to initialize application'')
       \<notin> set (events (snd (init (example_page (shop_server ''/gold/prices'')) GoldMarketApp_fields page_load)))"
  by (simp add: app_defs shop_server_def client_defs example_defs decimal.simps)

end
